theory Spec2Isabelle
  imports Main "HOL-Library.Word"
begin

section \<open>acpp::function, a type-erased callable container (BabelCode/function.h)\<close>

subsection \<open>Storage and the concrete callable types\<close>

text \<open>
  \<^verbatim>\<open>struct _Callable_storage { uint64_t mem1; uint64_t mem2; };\<close>
  Two 64-bit cells: sixteen bytes, aligned as a \<^verbatim>\<open>uint64_t\<close> (eight bytes on the
  LP64 targets the header is written for). Isabelle identifiers cannot start with an
  underscore, so the leading underscore of the source's names is dropped.
\<close>

record Callable_storage =
  mem1 :: "64 word"
  mem2 :: "64 word"

definition sizeof_Callable_storage :: nat where
  "sizeof_Callable_storage = 16"

definition alignment_of_Callable_storage :: nat where
  "alignment_of_Callable_storage = 8"

text \<open>
  Exceptions that can travel through the container: the \<^verbatim>\<open>std::runtime_error\<close> thrown
  by \<^verbatim>\<open>operator()\<close>, \<^verbatim>\<open>std::bad_alloc\<close> from \<^verbatim>\<open>new\<close>, and whatever a stored callable or
  its constructors throw.
\<close>

datatype exn = Runtime_error string | Bad_alloc | Callable_exception nat

text \<open>
  How a call ends: it returns, it leaves by an exception, an exception reaches a
  \<^verbatim>\<open>noexcept\<close> boundary (\<^verbatim>\<open>std::terminate\<close>), or it has undefined behaviour (a dangling
  or null pointer is dereferenced or deleted).
\<close>

datatype 'a outcome = Returns 'a | Throws exn | Terminate | Undefined

fun of_sum :: "exn + 'a \<Rightarrow> 'a outcome" where
  "of_sum (Inl e) = Throws e"
| "of_sum (Inr x) = Returns x"

fun noexcept :: "'a outcome \<Rightarrow> 'a outcome" where
  "noexcept (Throws e) = Terminate"
| "noexcept r = r"

text \<open>
  The templates are instantiated with a concrete callable type. What they use of it:
  \<^verbatim>\<open>sizeof\<close>, \<^verbatim>\<open>std::alignment_of\<close>, \<^verbatim>\<open>std::is_nothrow_move_constructible\<close>, its copy and
  move constructors (which may throw), its call operator (which may throw and, for a
  mutable callable, may change the captured state), and its object representation when
  it is overlaid on the storage cells: \<open>placement v s\<close> is the storage \<open>s\<close> after
  \<^verbatim>\<open>new (&s) Callable(v)\<close>, \<open>reinterpret s\<close> is
  \<^verbatim>\<open>reinterpret_cast<const Callable&>(s)\<close>. Values of all callable types live in one
  universe \<open>'v\<close>; \<open>'a\<close> and \<open>'r\<close> are the argument and result types of the signature.
\<close>

record ('v, 'a, 'r) concrete_type =
  sizeof :: nat
  alignment_of :: nat
  is_nothrow_move_constructible :: bool
  copy_constructor :: "'v \<Rightarrow> exn + 'v"
  move_constructor :: "'v \<Rightarrow> exn + 'v"
  call_operator :: "'v \<Rightarrow> 'a \<Rightarrow> (exn + 'r) \<times> 'v"
  placement :: "'v \<Rightarrow> Callable_storage \<Rightarrow> Callable_storage"
  reinterpret :: "Callable_storage \<Rightarrow> 'v"

text \<open>
  \<^verbatim>\<open>struct _Any_callable { _Callable_storage storage; _Operations* operations{nullptr}; };\<close>
  The operations pointer is null or points to the one static table of a concrete type
  (\<^verbatim>\<open>create_operations<Callable>\<close>); it is modelled by the type the table belongs to, and
  dereferencing it is \<open>create_operations\<close> below.
\<close>

record ('v, 'a, 'r) Any_callable =
  storage :: Callable_storage
  operations :: "('v, 'a, 'r) concrete_type option"

text \<open>
  The free store and the bookkeeping the claims talk about: the live blocks, the next
  address \<^verbatim>\<open>new\<close> hands out, and counters of allocations, deallocations, and of
  the callable objects the container copy-constructs, move-constructs and destroys.
\<close>

record 'v world =
  heap :: "64 word \<rightharpoonup> 'v"
  next_block :: "64 word"
  news :: nat
  deletes :: nat
  copied :: nat
  moved :: nat
  destroyed :: nat

text \<open>\<^verbatim>\<open>std::forward<_Fn>(callable)\<close>: the argument is copied from or moved from.\<close>

datatype 'v forwarded = Lvalue 'v | Rvalue 'v

fun construct :: "('v, 'a, 'r) concrete_type \<Rightarrow> 'v forwarded \<Rightarrow> exn + 'v" where
  "construct T (Lvalue v) = copy_constructor T v"
| "construct T (Rvalue v) = move_constructor T v"

fun constructed :: "'v forwarded \<Rightarrow> 'v world \<Rightarrow> 'v world" where
  "constructed (Lvalue v) w = w\<lparr>copied := copied w + 1\<rparr>"
| "constructed (Rvalue v) w = w\<lparr>moved := moved w + 1\<rparr>"

subsection \<open>Mode selection\<close>

text \<open>
  \<^verbatim>\<open>concept _In_place_callable = sizeof(T) <= sizeof(_Any_callable::storage) &&
     std::alignment_of<_Callable_storage>::value % std::alignment_of<T>::value == 0 &&
     std::is_nothrow_move_constructible<T>::value;\<close>
\<close>

definition In_place_callable :: "('v, 'a, 'r) concrete_type \<Rightarrow> bool" where
  "In_place_callable T \<longleftrightarrow>
     sizeof T \<le> sizeof_Callable_storage \<and>
     alignment_of_Callable_storage mod alignment_of T = 0 \<and>
     is_nothrow_move_constructible T"

subsection \<open>The manager for callables that do not fit (primary template)\<close>

definition large_get_ptr :: "('v, 'a, 'r) Any_callable \<Rightarrow> 64 word" where
  "large_get_ptr any_callable = mem1 (storage any_callable)"

definition large_get_ref :: "('v, 'a, 'r) Any_callable \<Rightarrow> 'v world \<Rightarrow> 'v option" where
  "large_get_ref any_callable w = heap w (large_get_ptr any_callable)"

definition large_invoke ::
  "('v, 'a, 'r) concrete_type \<Rightarrow> ('v, 'a, 'r) Any_callable \<Rightarrow> 'a \<Rightarrow> 'v world \<Rightarrow>
     'r outcome \<times> ('v, 'a, 'r) Any_callable \<times> 'v world" where
  "large_invoke T any_callable args w =
     (case large_get_ref any_callable w of
        None \<Rightarrow> (Undefined, any_callable, w)
      | Some v \<Rightarrow>
          (case call_operator T v args of
             (r, v') \<Rightarrow>
               (of_sum r, any_callable,
                w\<lparr>heap := (heap w)(large_get_ptr any_callable \<mapsto> v')\<rparr>)))"

text \<open>
  \<^verbatim>\<open>get_ptr(any_callable) = new LargeCallable(std::forward<_Fn>(callable));\<close>
  The allocation comes first and throws \<^verbatim>\<open>std::bad_alloc\<close> when no block is free; when
  the constructor throws, the new-expression gives the block back. Only the pointer
  cell of the storage is written.
\<close>

definition large_store ::
  "('v, 'a, 'r) concrete_type \<Rightarrow> 'v forwarded \<Rightarrow> ('v, 'a, 'r) Any_callable \<Rightarrow> 'v world \<Rightarrow>
     unit outcome \<times> ('v, 'a, 'r) Any_callable \<times> 'v world" where
  "large_store T callable any_callable w =
     (if next_block w = 0 \<or> heap w (next_block w) \<noteq> None
      then (Throws Bad_alloc, any_callable, w)
      else (case construct T callable of
              Inl e \<Rightarrow>
                (Throws e, any_callable, w\<lparr>news := news w + 1, deletes := deletes w + 1\<rparr>)
            | Inr v \<Rightarrow>
                (Returns (),
                 any_callable\<lparr>storage := (storage any_callable)\<lparr>mem1 := next_block w\<rparr>\<rparr>,
                 constructed callable
                   (w\<lparr>heap := (heap w)(next_block w \<mapsto> v),
                      next_block := next_block w + 1,
                      news := news w + 1\<rparr>))))"

definition large_move_and_destroy ::
  "('v, 'a, 'r) Any_callable \<Rightarrow> ('v, 'a, 'r) Any_callable \<Rightarrow> 'v world \<Rightarrow>
     unit outcome \<times> ('v, 'a, 'r) Any_callable \<times> ('v, 'a, 'r) Any_callable \<times> 'v world" where
  "large_move_and_destroy dest src w =
     (Returns (),
      dest\<lparr>storage := storage src, operations := operations src\<rparr>,
      src\<lparr>operations := None\<rparr>,
      w)"

text \<open>
  \<^verbatim>\<open>delete get_ptr(any_callable);\<close> Deleting a null pointer does nothing; deleting a
  pointer to no live block is undefined.
\<close>

definition large_destroy ::
  "('v, 'a, 'r) Any_callable \<Rightarrow> 'v world \<Rightarrow> unit outcome \<times> 'v world" where
  "large_destroy any_callable w =
     (if large_get_ptr any_callable = 0 then (Returns (), w)
      else (case heap w (large_get_ptr any_callable) of
              None \<Rightarrow> (Undefined, w)
            | Some v \<Rightarrow>
                (Returns (),
                 w\<lparr>heap := (heap w)(large_get_ptr any_callable := None),
                   deletes := deletes w + 1,
                   destroyed := destroyed w + 1\<rparr>)))"

subsection \<open>The manager for callables stored in the local buffer (specialisation)\<close>

definition in_place_get_ref :: "('v, 'a, 'r) concrete_type \<Rightarrow> ('v, 'a, 'r) Any_callable \<Rightarrow> 'v" where
  "in_place_get_ref T any_callable = reinterpret T (storage any_callable)"

definition in_place_invoke ::
  "('v, 'a, 'r) concrete_type \<Rightarrow> ('v, 'a, 'r) Any_callable \<Rightarrow> 'a \<Rightarrow> 'v world \<Rightarrow>
     'r outcome \<times> ('v, 'a, 'r) Any_callable \<times> 'v world" where
  "in_place_invoke T any_callable args w =
     (case call_operator T (in_place_get_ref T any_callable) args of
        (r, v') \<Rightarrow>
          (of_sum r,
           any_callable\<lparr>storage := placement T v' (storage any_callable)\<rparr>,
           w))"

definition in_place_store ::
  "('v, 'a, 'r) concrete_type \<Rightarrow> 'v forwarded \<Rightarrow> ('v, 'a, 'r) Any_callable \<Rightarrow> 'v world \<Rightarrow>
     unit outcome \<times> ('v, 'a, 'r) Any_callable \<times> 'v world" where
  "in_place_store T callable any_callable w =
     (case construct T callable of
        Inl e \<Rightarrow> (Throws e, any_callable, w)
      | Inr v \<Rightarrow>
          (Returns (),
           any_callable\<lparr>storage := placement T v (storage any_callable)\<rparr>,
           constructed callable w))"

definition in_place_destroy ::
  "('v, 'a, 'r) concrete_type \<Rightarrow> ('v, 'a, 'r) Any_callable \<Rightarrow> 'v world \<Rightarrow>
     unit outcome \<times> 'v world" where
  "in_place_destroy T any_callable w = (Returns (), w\<lparr>destroyed := destroyed w + 1\<rparr>)"

definition in_place_move_and_destroy ::
  "('v, 'a, 'r) concrete_type \<Rightarrow> ('v, 'a, 'r) Any_callable \<Rightarrow> ('v, 'a, 'r) Any_callable \<Rightarrow>
     'v world \<Rightarrow>
     unit outcome \<times> ('v, 'a, 'r) Any_callable \<times> ('v, 'a, 'r) Any_callable \<times> 'v world" where
  "in_place_move_and_destroy T dest src w =
     (case in_place_store T (Rvalue (in_place_get_ref T src)) dest w of
        (Returns u, dest', w') \<Rightarrow>
          (case in_place_destroy T src w' of
             (Returns u', w'') \<Rightarrow>
               (Returns (), dest'\<lparr>operations := operations src\<rparr>, src\<lparr>operations := None\<rparr>, w'')
           | (r, w'') \<Rightarrow> (r, dest', src, w''))
      | (r, dest', w') \<Rightarrow> (r, dest', src, w'))"

subsection \<open>Selecting the manager of a concrete type\<close>

text \<open>
  \<^verbatim>\<open>_Any_callable_manager<Callable>\<close> is the specialisation when the constraint
  \<^verbatim>\<open>_In_place_callable<Callable>\<close> holds and the primary template otherwise.
\<close>

definition manager_get_ref ::
  "('v, 'a, 'r) concrete_type \<Rightarrow> ('v, 'a, 'r) Any_callable \<Rightarrow> 'v world \<Rightarrow> 'v option" where
  "manager_get_ref T any_callable w =
     (if In_place_callable T then Some (in_place_get_ref T any_callable)
      else large_get_ref any_callable w)"

definition manager_invoke ::
  "('v, 'a, 'r) concrete_type \<Rightarrow> ('v, 'a, 'r) Any_callable \<Rightarrow> 'a \<Rightarrow> 'v world \<Rightarrow>
     'r outcome \<times> ('v, 'a, 'r) Any_callable \<times> 'v world" where
  "manager_invoke T any_callable args w =
     (if In_place_callable T then in_place_invoke T any_callable args w
      else large_invoke T any_callable args w)"

definition manager_store ::
  "('v, 'a, 'r) concrete_type \<Rightarrow> 'v forwarded \<Rightarrow> ('v, 'a, 'r) Any_callable \<Rightarrow> 'v world \<Rightarrow>
     unit outcome \<times> ('v, 'a, 'r) Any_callable \<times> 'v world" where
  "manager_store T callable any_callable w =
     (if In_place_callable T then in_place_store T callable any_callable w
      else large_store T callable any_callable w)"

definition manager_move_and_destroy ::
  "('v, 'a, 'r) concrete_type \<Rightarrow> ('v, 'a, 'r) Any_callable \<Rightarrow> ('v, 'a, 'r) Any_callable \<Rightarrow>
     'v world \<Rightarrow>
     unit outcome \<times> ('v, 'a, 'r) Any_callable \<times> ('v, 'a, 'r) Any_callable \<times> 'v world" where
  "manager_move_and_destroy T dest src w =
     (if In_place_callable T then in_place_move_and_destroy T dest src w
      else large_move_and_destroy dest src w)"

definition manager_destroy ::
  "('v, 'a, 'r) concrete_type \<Rightarrow> ('v, 'a, 'r) Any_callable \<Rightarrow> 'v world \<Rightarrow>
     unit outcome \<times> 'v world" where
  "manager_destroy T any_callable w =
     (if In_place_callable T then in_place_destroy T any_callable w
      else large_destroy any_callable w)"

subsection \<open>The table of operations\<close>

record ('v, 'a, 'r) Operations =
  destroy :: "('v, 'a, 'r) Any_callable \<Rightarrow> 'v world \<Rightarrow> unit outcome \<times> 'v world"
  copy :: "('v, 'a, 'r) Any_callable \<Rightarrow> ('v, 'a, 'r) Any_callable \<Rightarrow> 'v world \<Rightarrow>
             unit outcome \<times> ('v, 'a, 'r) Any_callable \<times> 'v world"
  move :: "('v, 'a, 'r) Any_callable \<Rightarrow> ('v, 'a, 'r) Any_callable \<Rightarrow> 'v world \<Rightarrow>
             unit outcome \<times> ('v, 'a, 'r) Any_callable \<times> ('v, 'a, 'r) Any_callable \<times> 'v world"

definition templated_destroy ::
  "('v, 'a, 'r) concrete_type \<Rightarrow> ('v, 'a, 'r) Any_callable \<Rightarrow> 'v world \<Rightarrow>
     unit outcome \<times> 'v world" where
  "templated_destroy T any_callable w = manager_destroy T any_callable w"

text \<open>
  \<^verbatim>\<open>_Manager::store(_Manager::get_ref(src), dst); dst.operations = src.operations;\<close>
  In boxed mode \<^verbatim>\<open>get_ref\<close> dereferences the stored pointer.
\<close>

definition templated_copy ::
  "('v, 'a, 'r) concrete_type \<Rightarrow> ('v, 'a, 'r) Any_callable \<Rightarrow> ('v, 'a, 'r) Any_callable \<Rightarrow>
     'v world \<Rightarrow> unit outcome \<times> ('v, 'a, 'r) Any_callable \<times> 'v world" where
  "templated_copy T dst src w =
     (case manager_get_ref T src w of
        None \<Rightarrow> (Undefined, dst, w)
      | Some v \<Rightarrow>
          (case manager_store T (Lvalue v) dst w of
             (Returns u, dst', w') \<Rightarrow> (Returns (), dst'\<lparr>operations := operations src\<rparr>, w')
           | (r, dst', w') \<Rightarrow> (r, dst', w')))"

definition templated_move ::
  "('v, 'a, 'r) concrete_type \<Rightarrow> ('v, 'a, 'r) Any_callable \<Rightarrow> ('v, 'a, 'r) Any_callable \<Rightarrow>
     'v world \<Rightarrow>
     unit outcome \<times> ('v, 'a, 'r) Any_callable \<times> ('v, 'a, 'r) Any_callable \<times> 'v world" where
  "templated_move T dst src w = manager_move_and_destroy T dst src w"

definition create_operations :: "('v, 'a, 'r) concrete_type \<Rightarrow> ('v, 'a, 'r) Operations" where
  "create_operations T =
     \<lparr>destroy = templated_destroy T, copy = templated_copy T, move = templated_move T\<rparr>"

subsection \<open>The container\<close>

text \<open>
  \<^verbatim>\<open>class function<R(Args...)> { detail::_Any_callable any_callable_;
     _Callable_invoker invoker_{nullptr}; };\<close>
  The invoker is null or \<^verbatim>\<open>&_Manager::invoke<R, Args...>\<close> of a concrete type; as
  with the operations pointer, it is modelled by that type. A name cannot end with an
  underscore either: the two members are \<open>any_callable_field\<close> and \<open>invoker_field\<close>.
  The class is \<open>acpp_function\<close> here; its copy and move constructors are
  \<open>copy_function\<close> and \<open>move_function\<close>, its members \<open>set\<close>, \<open>unset\<close> and \<open>swap\<close>
  are \<open>function_set\<close>, \<open>function_unset\<close> and \<open>function_swap\<close>, and \<open>operator()\<close> is
  \<open>operator_call\<close>. Every operation takes the world and returns how it ended, the
  objects it may have changed, and the world it leaves.
\<close>

record ('v, 'a, 'r) acpp_function =
  any_callable_field :: "('v, 'a, 'r) Any_callable"
  invoker_field :: "('v, 'a, 'r) concrete_type option"

text \<open>
  \<^verbatim>\<open>function() noexcept = default;\<close> The storage cells are not initialised: their
  indeterminate content is the parameter \<open>junk\<close>.
\<close>

definition default_function :: "Callable_storage \<Rightarrow> ('v, 'a, 'r) acpp_function" where
  "default_function junk =
     \<lparr>any_callable_field = \<lparr>storage = junk, operations = None\<rparr>, invoker_field = None\<rparr>"

text \<open>\<^verbatim>\<open>operator bool() const noexcept { return any_callable_.operations != nullptr; }\<close>\<close>

definition operator_bool :: "('v, 'a, 'r) acpp_function \<Rightarrow> bool" where
  "operator_bool this \<longleftrightarrow> operations (any_callable_field this) \<noteq> None"

text \<open>
  \<^verbatim>\<open>function(const function& oth)\<close>: when the constructor throws, no object exists.
\<close>

definition copy_function ::
  "Callable_storage \<Rightarrow> ('v, 'a, 'r) acpp_function \<Rightarrow> 'v world \<Rightarrow>
     ('v, 'a, 'r) acpp_function outcome \<times> 'v world" where
  "copy_function junk oth w =
     (case operations (any_callable_field oth) of
        None \<Rightarrow> (Returns (default_function junk), w)
      | Some T \<Rightarrow>
          (case copy (create_operations T) (any_callable_field (default_function junk))
                  (any_callable_field oth) w of
             (Returns u, a, w') \<Rightarrow>
               (Returns \<lparr>any_callable_field = a, invoker_field = invoker_field oth\<rparr>, w')
           | (r, a, w') \<Rightarrow> (map_outcome (\<lambda>u. default_function junk) r, w')))"

text \<open>
  \<^verbatim>\<open>function(function&& oth) noexcept\<close>: returns the new container and what is left
  of \<open>oth\<close>.
\<close>

definition move_function ::
  "Callable_storage \<Rightarrow> ('v, 'a, 'r) acpp_function \<Rightarrow> 'v world \<Rightarrow>
     ('v, 'a, 'r) acpp_function outcome \<times> ('v, 'a, 'r) acpp_function \<times> 'v world" where
  "move_function junk oth w =
     (case operations (any_callable_field oth) of
        None \<Rightarrow> (Returns (default_function junk), oth, w)
      | Some T \<Rightarrow>
          (case move (create_operations T) (any_callable_field (default_function junk))
                  (any_callable_field oth) w of
             (Returns u, a, b, w') \<Rightarrow>
               (Returns \<lparr>any_callable_field = a, invoker_field = invoker_field oth\<rparr>,
                oth\<lparr>any_callable_field := b, invoker_field := None\<rparr>, w')
           | (r, a, b, w') \<Rightarrow>
               (noexcept (map_outcome (\<lambda>u. default_function junk) r),
                oth\<lparr>any_callable_field := b\<rparr>, w')))"

text \<open>
  \<^verbatim>\<open>set\<close>: store the callable with the manager of its decayed type \<open>T\<close>, then record
  the table and the invoker of \<open>T\<close>.
\<close>

definition function_set ::
  "('v, 'a, 'r) concrete_type \<Rightarrow> 'v forwarded \<Rightarrow> ('v, 'a, 'r) acpp_function \<Rightarrow> 'v world \<Rightarrow>
     unit outcome \<times> ('v, 'a, 'r) acpp_function \<times> 'v world" where
  "function_set T callable this w =
     (case manager_store T callable (any_callable_field this) w of
        (Returns u, a, w') \<Rightarrow>
          (Returns (), this\<lparr>any_callable_field := a\<lparr>operations := Some T\<rparr>, invoker_field := Some T\<rparr>, w')
      | (r, a, w') \<Rightarrow> (r, this\<lparr>any_callable_field := a\<rparr>, w'))"

text \<open>
  \<^verbatim>\<open>unset\<close>: \<^verbatim>\<open>any_callable_.operations->destroy(any_callable_);
  any_callable_.operations = nullptr;\<close> The invoker is left as it is.
\<close>

definition function_unset ::
  "('v, 'a, 'r) acpp_function \<Rightarrow> 'v world \<Rightarrow>
     unit outcome \<times> ('v, 'a, 'r) acpp_function \<times> 'v world" where
  "function_unset this w =
     (case operations (any_callable_field this) of
        None \<Rightarrow> (Undefined, this, w)
      | Some T \<Rightarrow>
          (case destroy (create_operations T) (any_callable_field this) w of
             (Returns u, w') \<Rightarrow>
               (Returns (), this\<lparr>any_callable_field := (any_callable_field this)\<lparr>operations := None\<rparr>\<rparr>, w')
           | (r, w') \<Rightarrow> (r, this, w')))"

text \<open>\<^verbatim>\<open>template <typename Callable> function(Callable&& callable) { set(...); }\<close>\<close>

definition function_from_callable ::
  "Callable_storage \<Rightarrow> ('v, 'a, 'r) concrete_type \<Rightarrow> 'v forwarded \<Rightarrow> 'v world \<Rightarrow>
     ('v, 'a, 'r) acpp_function outcome \<times> 'v world" where
  "function_from_callable junk T callable w =
     (case function_set T callable (default_function junk) w of
        (r, this, w') \<Rightarrow> (map_outcome (\<lambda>u. this) r, w'))"

text \<open>\<^verbatim>\<open>~function() { if (*this) { unset(); } }\<close>\<close>

definition destructor ::
  "('v, 'a, 'r) acpp_function \<Rightarrow> 'v world \<Rightarrow> unit outcome \<times> 'v world" where
  "destructor this w =
     (if operator_bool this
      then (case function_unset this w of (r, this', w') \<Rightarrow> (r, w'))
      else (Returns (), w))"

text \<open>
  \<^verbatim>\<open>R operator()(Args... args)\<close>: the test is on the operations pointer, the call goes
  through the invoker; calling through a null invoker is undefined.
\<close>

definition operator_call ::
  "('v, 'a, 'r) acpp_function \<Rightarrow> 'a \<Rightarrow> 'v world \<Rightarrow>
     'r outcome \<times> ('v, 'a, 'r) acpp_function \<times> 'v world" where
  "operator_call this args w =
     (if operations (any_callable_field this) = None
      then (Throws (Runtime_error ''bad function call''), this, w)
      else (case invoker_field this of
              None \<Rightarrow> (Undefined, this, w)
            | Some T \<Rightarrow>
                (case manager_invoke T (any_callable_field this) args w of
                   (r, a, w') \<Rightarrow> (r, this\<lparr>any_callable_field := a\<rparr>, w'))))"

text \<open>
  \<^verbatim>\<open>void swap(function& oth) noexcept\<close>, for two distinct containers. The temporary
  \<^verbatim>\<open>_Any_callable\<close> starts with indeterminate storage \<open>junk\<close> and a null operations
  pointer. The three conditional moves follow the source; a move that does not return
  ends the call at the \<^verbatim>\<open>noexcept\<close> boundary.
\<close>

definition swap_step ::
  "('v, 'a, 'r) Any_callable \<Rightarrow> ('v, 'a, 'r) Any_callable \<Rightarrow> 'v world \<Rightarrow>
     unit outcome \<times> ('v, 'a, 'r) Any_callable \<times> ('v, 'a, 'r) Any_callable \<times> 'v world" where
  "swap_step dst src w =
     (case operations src of
        None \<Rightarrow> (Returns (), dst, src, w)
      | Some T \<Rightarrow> move (create_operations T) dst src w)"

definition function_swap ::
  "Callable_storage \<Rightarrow> ('v, 'a, 'r) acpp_function \<Rightarrow> ('v, 'a, 'r) acpp_function \<Rightarrow>
     'v world \<Rightarrow>
     unit outcome \<times> ('v, 'a, 'r) acpp_function \<times> ('v, 'a, 'r) acpp_function \<times> 'v world" where
  "function_swap junk this oth w =
     (case swap_step \<lparr>storage = junk, operations = None\<rparr> (any_callable_field oth) w of
        (Returns u1, temp1, oth1, w1) \<Rightarrow>
          (case swap_step oth1 (any_callable_field this) w1 of
             (Returns u2, oth2, this2, w2) \<Rightarrow>
               (case swap_step this2 temp1 w2 of
                  (Returns u3, this3, temp3, w3) \<Rightarrow>
                    (Returns (),
                     \<lparr>any_callable_field = this3, invoker_field = invoker_field oth\<rparr>,
                     \<lparr>any_callable_field = oth2, invoker_field = invoker_field this\<rparr>,
                     w3)
                | (r, this3, temp3, w3) \<Rightarrow>
                    (noexcept r, this\<lparr>any_callable_field := this3\<rparr>, oth\<lparr>any_callable_field := oth2\<rparr>, w3))
           | (r, oth2, this2, w2) \<Rightarrow>
               (noexcept r, this\<lparr>any_callable_field := this2\<rparr>, oth\<lparr>any_callable_field := oth2\<rparr>, w2))
      | (r, temp1, oth1, w1) \<Rightarrow> (noexcept r, this, oth\<lparr>any_callable_field := oth1\<rparr>, w1))"

text \<open>
  \<^verbatim>\<open>function& operator=(function oth) { swap(oth); return *this; }\<close> The parameter is
  a container of its own, built by the caller; it is destroyed when the call is over.
\<close>

definition operator_assign ::
  "Callable_storage \<Rightarrow> ('v, 'a, 'r) acpp_function \<Rightarrow> ('v, 'a, 'r) acpp_function \<Rightarrow>
     'v world \<Rightarrow> unit outcome \<times> ('v, 'a, 'r) acpp_function \<times> 'v world" where
  "operator_assign junk this oth w =
     (case function_swap junk this oth w of
        (Returns u, this', oth', w') \<Rightarrow>
          (case destructor oth' w' of (r, w'') \<Rightarrow> (r, this', w''))
      | (r, this', oth', w') \<Rightarrow> (r, this', w'))"

text \<open>
  \<^verbatim>\<open>x = y\<close> for an lvalue \<open>y\<close>: the parameter is copy-constructed from \<open>y\<close> (with
  indeterminate storage \<open>junk_p\<close> to start from), then the body runs. \<open>x = x\<close> is
  \<open>copy_assign\<close> with both arguments the same container: the copy is complete before
  the body touches \<open>x\<close>.
\<close>

definition copy_assign ::
  "Callable_storage \<Rightarrow> Callable_storage \<Rightarrow> ('v, 'a, 'r) acpp_function \<Rightarrow>
     ('v, 'a, 'r) acpp_function \<Rightarrow> 'v world \<Rightarrow>
     unit outcome \<times> ('v, 'a, 'r) acpp_function \<times> 'v world" where
  "copy_assign junk_p junk_t this src w =
     (case copy_function junk_p src w of
        (Returns oth, w') \<Rightarrow> operator_assign junk_t this oth w'
      | (r, w') \<Rightarrow> (map_outcome (\<lambda>u. ()) r, this, w'))"

text \<open>\<^verbatim>\<open>x = std::move(y)\<close>: the parameter is move-constructed from \<open>y\<close>.\<close>

definition move_assign ::
  "Callable_storage \<Rightarrow> Callable_storage \<Rightarrow> ('v, 'a, 'r) acpp_function \<Rightarrow>
     ('v, 'a, 'r) acpp_function \<Rightarrow> 'v world \<Rightarrow>
     unit outcome \<times> ('v, 'a, 'r) acpp_function \<times> ('v, 'a, 'r) acpp_function \<times> 'v world" where
  "move_assign junk_p junk_t this src w =
     (case move_function junk_p src w of
        (Returns oth, src', w') \<Rightarrow>
          (case operator_assign junk_t this oth w' of (r, this', w'') \<Rightarrow> (r, this', src', w''))
      | (r, src', w') \<Rightarrow> (map_outcome (\<lambda>u. ()) r, this, src', w'))"

text \<open>
  \<^verbatim>\<open>template <typename Callable> function& operator=(Callable&& callable) {
     if (*this) { unset(); }  set(std::forward<Callable>(callable)); }\<close>
  The body has no return statement; the model follows its effects on the container.
\<close>

definition operator_assign_callable ::
  "('v, 'a, 'r) concrete_type \<Rightarrow> 'v forwarded \<Rightarrow> ('v, 'a, 'r) acpp_function \<Rightarrow> 'v world \<Rightarrow>
     unit outcome \<times> ('v, 'a, 'r) acpp_function \<times> 'v world" where
  "operator_assign_callable T callable this w =
     (if operator_bool this
      then (case function_unset this w of
              (Returns u, this', w') \<Rightarrow> function_set T callable this' w'
            | (r, this', w') \<Rightarrow> (r, this', w'))
      else function_set T callable this w)"

subsection \<open>What a container holds\<close>

text \<open>
  \<open>holds f w T v\<close>: the container \<open>f\<close> stores the callable \<open>v\<close> of concrete type \<open>T\<close>:
  table and invoker are those of \<open>T\<close>, and the storage read the way \<open>T\<close>'s manager reads
  it gives \<open>v\<close> (the overlaid object in inline mode, a non-null pointer to a live block
  holding \<open>v\<close> in boxed mode).
\<close>

definition holds ::
  "('v, 'a, 'r) acpp_function \<Rightarrow> 'v world \<Rightarrow> ('v, 'a, 'r) concrete_type \<Rightarrow> 'v \<Rightarrow> bool" where
  "holds f w T v \<longleftrightarrow>
     operations (any_callable_field f) = Some T \<and> invoker_field f = Some T \<and>
     (if In_place_callable T
      then reinterpret T (storage (any_callable_field f)) = v
      else mem1 (storage (any_callable_field f)) \<noteq> 0 \<and>
           heap w (mem1 (storage (any_callable_field f))) = Some v)"

definition is_empty :: "('v, 'a, 'r) acpp_function \<Rightarrow> bool" where
  "is_empty f \<longleftrightarrow> operations (any_callable_field f) = None \<and> invoker_field f = None"

text \<open>
  The semantic requirements C++ puts on a callable's special members, for one value:
  move construction yields the value, copy construction yields the value when it
  returns, and an object placed in the storage cells reads back as itself.
\<close>

definition faithful_move :: "('v, 'a, 'r) concrete_type \<Rightarrow> 'v \<Rightarrow> bool" where
  "faithful_move T v \<longleftrightarrow> move_constructor T v = Inr v"

definition faithful_copy :: "('v, 'a, 'r) concrete_type \<Rightarrow> 'v \<Rightarrow> bool" where
  "faithful_copy T v \<longleftrightarrow> copy_constructor T v = Inr v \<or> (\<exists>e. copy_constructor T v = Inl e)"

definition overlays :: "('v, 'a, 'r) concrete_type \<Rightarrow> 'v \<Rightarrow> bool" where
  "overlays T v \<longleftrightarrow> (\<forall>s. reinterpret T (placement T v s) = v)"

text \<open>
  Only the inline manager runs the move constructor and overlays the object when a
  container is moved; a boxed callable is never touched by a move.
\<close>

definition relocatable :: "('v, 'a, 'r) concrete_type \<Rightarrow> 'v \<Rightarrow> bool" where
  "relocatable T v \<longleftrightarrow> (In_place_callable T \<longrightarrow> faithful_move T v \<and> overlays T v)"

text \<open>
  The abstract state of a container: \<open>None\<close> when it is empty, the concrete type and
  the stored callable otherwise.
\<close>

fun contains ::
  "('v, 'a, 'r) acpp_function \<Rightarrow> 'v world \<Rightarrow> (('v, 'a, 'r) concrete_type \<times> 'v) option \<Rightarrow> bool" where
  "contains f w None = is_empty f"
| "contains f w (Some (T, v)) = holds f w T v"

fun movable :: "(('v, 'a, 'r) concrete_type \<times> 'v) option \<Rightarrow> bool" where
  "movable None = True"
| "movable (Some (T, v)) = relocatable T v"

text \<open>\<open>holds\<close> without the invoker: what the storage and the table of a cell say.\<close>

definition cell_holds ::
  "('v, 'a, 'r) Any_callable \<Rightarrow> 'v world \<Rightarrow> ('v, 'a, 'r) concrete_type \<Rightarrow> 'v \<Rightarrow> bool" where
  "cell_holds a w T v \<longleftrightarrow>
     operations a = Some T \<and>
     (if In_place_callable T
      then reinterpret T (storage a) = v
      else mem1 (storage a) \<noteq> 0 \<and> heap w (mem1 (storage a)) = Some v)"

subsection \<open>Callable types used as test fixtures\<close>

text \<open>
  In the manner of the demonstration program's closures. Values are lists of 64-bit
  words (the captured state). \<open>small_closure\<close> captures one word \<open>a\<close>, adds it to
  the argument, returns the sum and keeps it (a mutable closure); it is eight bytes
  and lives in the first storage cell. \<open>large_closure\<close> captures four words.
  \<open>guarded_closure\<close> is \<open>small_closure\<close> with a move constructor that is not
  \<^verbatim>\<open>noexcept\<close>. The copy constructor of \<open>uncopyable_closure\<close> always throws
  \<^verbatim>\<open>std::bad_alloc\<close>.
\<close>

definition small_closure :: "(64 word list, 64 word, 64 word) concrete_type" where
  "small_closure =
     \<lparr>sizeof = 8, alignment_of = 8, is_nothrow_move_constructible = True,
      copy_constructor = Inr, move_constructor = Inr,
      call_operator = (\<lambda>v b. case v of [] \<Rightarrow> (Inl (Callable_exception 0), v)
                                  | a # x \<Rightarrow> (Inr (a + b), [a + b])),
      placement = (\<lambda>v s. case v of [] \<Rightarrow> s | a # x \<Rightarrow> s\<lparr>mem1 := a\<rparr>),
      reinterpret = (\<lambda>s. [mem1 s])\<rparr>"

definition large_closure :: "(64 word list, 64 word, 64 word) concrete_type" where
  "large_closure =
     \<lparr>sizeof = 32, alignment_of = 8, is_nothrow_move_constructible = True,
      copy_constructor = Inr, move_constructor = Inr,
      call_operator = (\<lambda>v b. (Inr (sum_list v + b), map (\<lambda>x. x + b) v)),
      placement = (\<lambda>v s. s),
      reinterpret = (\<lambda>s. [])\<rparr>"

definition guarded_closure :: "(64 word list, 64 word, 64 word) concrete_type" where
  "guarded_closure = small_closure\<lparr>is_nothrow_move_constructible := False\<rparr>"

definition uncopyable_closure :: "(64 word list, 64 word, 64 word) concrete_type" where
  "uncopyable_closure = large_closure\<lparr>copy_constructor := (\<lambda>v. Inl Bad_alloc)\<rparr>"

definition fresh_world :: "64 word list world" where
  "fresh_world =
     \<lparr>heap = Map.empty, next_block = 1, news = 0, deletes = 0, copied = 0, moved = 0,
      destroyed = 0\<rparr>"

definition zeroes :: Callable_storage where
  "zeroes = \<lparr>mem1 = 0, mem2 = 0\<rparr>"

definition pattern :: Callable_storage where
  "pattern = \<lparr>mem1 = 0xDEADBEEF, mem2 = 0xFEEDFACE\<rparr>"

text \<open>
  The containers the constructor from a callable builds in \<open>fresh_world\<close> over
  storage that held \<open>pattern\<close>, and the worlds it leaves: \<open>small_fixture\<close> from the
  lvalue \<open>[2]\<close> of \<open>small_closure\<close>, \<open>large_fixture\<close> from the rvalue
  \<open>[1, 2, 3, 4]\<close> of \<open>large_closure\<close>.
\<close>

definition small_fixture :: "(64 word list, 64 word, 64 word) acpp_function" where
  "small_fixture =
     \<lparr>any_callable_field =
        \<lparr>storage = \<lparr>mem1 = 2, mem2 = 0xFEEDFACE\<rparr>, operations = Some small_closure\<rparr>,
      invoker_field = Some small_closure\<rparr>"

definition small_world :: "64 word list world" where
  "small_world = fresh_world\<lparr>copied := 1\<rparr>"

definition large_fixture :: "(64 word list, 64 word, 64 word) acpp_function" where
  "large_fixture =
     \<lparr>any_callable_field =
        \<lparr>storage = \<lparr>mem1 = 1, mem2 = 0xFEEDFACE\<rparr>, operations = Some large_closure\<rparr>,
      invoker_field = Some large_closure\<rparr>"

definition large_world :: "64 word list world" where
  "large_world =
     \<lparr>heap = [1 \<mapsto> [1, 2, 3, 4]], next_block = 2, news = 1, deletes = 0, copied = 0, moved = 1,
      destroyed = 0\<rparr>"

definition empty_fixture :: "(64 word list, 64 word, 64 word) acpp_function" where
  "empty_fixture = default_function zeroes"

text \<open>
  \<open>uncopyable_fixture\<close> is what the constructor builds from the rvalue
  \<open>[1, 2, 3, 4]\<close> of \<open>uncopyable_closure\<close> in \<open>fresh_world\<close>; it leaves
  \<open>large_world\<close>.
\<close>

definition uncopyable_fixture :: "(64 word list, 64 word, 64 word) acpp_function" where
  "uncopyable_fixture =
     \<lparr>any_callable_field =
        \<lparr>storage = \<lparr>mem1 = 1, mem2 = 0xFEEDFACE\<rparr>, operations = Some uncopyable_closure\<rparr>,
      invoker_field = Some uncopyable_closure\<rparr>"

text \<open>The same container with other bytes in its storage cells.\<close>

definition with_storage ::
  "('v, 'a, 'r) acpp_function \<Rightarrow> Callable_storage \<Rightarrow> ('v, 'a, 'r) acpp_function" where
  "with_storage f s = f\<lparr>any_callable_field := (any_callable_field f)\<lparr>storage := s\<rparr>\<rparr>"

section \<open>Lemmas about the operations\<close>

lemma holds_cell:
  "holds f w T v \<longleftrightarrow> cell_holds (any_callable_field f) w T v \<and> invoker_field f = Some T"
  by (auto simp: holds_def cell_holds_def)

lemma cell_holds_heap: "cell_holds a w T v \<Longrightarrow> heap w' = heap w \<Longrightarrow> cell_holds a w' T v"
  by (simp add: cell_holds_def)

lemma holds_heap: "holds f w T v \<Longrightarrow> heap w' = heap w \<Longrightarrow> holds f w' T v"
  by (simp add: holds_def)

lemma swap_step_empty: "operations src = None \<Longrightarrow> swap_step dst src w = (Returns (), dst, src, w)"
  by (simp add: swap_step_def)

lemma swap_step_boxed:
  "operations src = Some T \<Longrightarrow> \<not> In_place_callable T \<Longrightarrow>
   swap_step dst src w =
     (Returns (), dst\<lparr>storage := storage src, operations := Some T\<rparr>, src\<lparr>operations := None\<rparr>, w)"
  by (simp add: swap_step_def create_operations_def templated_move_def manager_move_and_destroy_def
      large_move_and_destroy_def)

lemma swap_step_inline:
  "operations src = Some T \<Longrightarrow> In_place_callable T \<Longrightarrow>
   move_constructor T (reinterpret T (storage src)) = Inr v \<Longrightarrow>
   swap_step dst src w =
     (Returns (), dst\<lparr>storage := placement T v (storage dst), operations := Some T\<rparr>,
      src\<lparr>operations := None\<rparr>,
      w\<lparr>moved := moved w + 1, destroyed := destroyed w + 1\<rparr>)"
  by (simp add: swap_step_def create_operations_def templated_move_def manager_move_and_destroy_def
      in_place_move_and_destroy_def in_place_store_def in_place_destroy_def in_place_get_ref_def)

lemma swap_step_occupied:
  assumes "cell_holds src w T v" "relocatable T v"
  shows "\<exists>dst' w'. swap_step dst src w = (Returns (), dst', src\<lparr>operations := None\<rparr>, w') \<and>
           cell_holds dst' w' T v \<and> heap w' = heap w \<and> next_block w' = next_block w \<and>
           news w' = news w \<and> deletes w' = deletes w \<and> copied w' = copied w \<and>
           moved w' + destroyed w = moved w + destroyed w' \<and>
           (\<not> In_place_callable T \<longrightarrow> storage dst' = storage src \<and> w' = w)"
proof (cases "In_place_callable T")
  case True
  with assms have "move_constructor T (reinterpret T (storage src)) = Inr v" "operations src = Some T"
    and ov: "overlays T v"
    by (auto simp: cell_holds_def relocatable_def faithful_move_def)
  from swap_step_inline[OF this(2) True this(1)] True ov show ?thesis
    by (simp add: cell_holds_def overlays_def)
next
  case False
  with assms have "operations src = Some T" by (simp add: cell_holds_def)
  from swap_step_boxed[OF this False] False assms(1) show ?thesis
    by (simp add: cell_holds_def)
qed

lemma function_swap_unfold:
  assumes "swap_step \<lparr>storage = junk, operations = None\<rparr> (any_callable_field oth) w = (Returns (), temp1, oth1, w1)"
    and "swap_step oth1 (any_callable_field this) w1 = (Returns (), oth2, this2, w2)"
    and "swap_step this2 temp1 w2 = (Returns (), this3, temp3, w3)"
  shows "function_swap junk this oth w =
           (Returns (), \<lparr>any_callable_field = this3, invoker_field = invoker_field oth\<rparr>,
            \<lparr>any_callable_field = oth2, invoker_field = invoker_field this\<rparr>, w3)"
  using assms by (simp add: function_swap_def)

lemma function_swap_exchanges:
  assumes a: "contains a w sa" and b: "contains b w sb" and ma: "movable sa" and mb: "movable sb"
  shows "\<exists>a' b' w'. function_swap junk a b w = (Returns (), a', b', w') \<and>
           contains a' w' sb \<and> contains b' w' sa \<and> heap w' = heap w \<and>
           next_block w' = next_block w \<and> news w' = news w \<and> deletes w' = deletes w \<and>
           copied w' = copied w \<and> moved w' + destroyed w = moved w + destroyed w' \<and>
           (\<forall>T v. sb = Some (T, v) \<and> \<not> In_place_callable T \<longrightarrow>
              storage (any_callable_field a') = storage (any_callable_field b)) \<and>
           (\<forall>T v. sa = Some (T, v) \<and> \<not> In_place_callable T \<longrightarrow>
              storage (any_callable_field b') = storage (any_callable_field a))"
proof -
  let ?temp = "\<lparr>storage = junk, operations = None\<rparr> :: ('a, 'b, 'c) Any_callable"
  obtain temp1 oth1 w1 where s1: "swap_step ?temp (any_callable_field b) w = (Returns (), temp1, oth1, w1)"
    and o1: "operations oth1 = None"
    and t1: "case sb of None \<Rightarrow> operations temp1 = None | Some (T, v) \<Rightarrow> cell_holds temp1 w1 T v \<and>
               (\<not> In_place_callable T \<longrightarrow> storage temp1 = storage (any_callable_field b))"
    and h1: "heap w1 = heap w" "next_block w1 = next_block w" "news w1 = news w" "deletes w1 = deletes w"
        "copied w1 = copied w" "moved w1 + destroyed w = moved w + destroyed w1"
  proof (cases sb)
    case None
    with b have "operations (any_callable_field b) = None" by (simp add: is_empty_def)
    from swap_step_empty[OF this] None that this show ?thesis by simp
  next
    case (Some p)
    obtain T v where p: "p = (T, v)" by (cases p)
    from b mb Some p have "cell_holds (any_callable_field b) w T v" "relocatable T v"
      by (simp_all add: holds_cell)
    from swap_step_occupied[OF this, of ?temp] Some p that show ?thesis by auto
  qed
  obtain oth2 this2 w2 where s2: "swap_step oth1 (any_callable_field a) w1 = (Returns (), oth2, this2, w2)"
    and o2: "operations this2 = None"
    and t2: "case sa of None \<Rightarrow> operations oth2 = None | Some (T, v) \<Rightarrow> cell_holds oth2 w2 T v \<and>
               (\<not> In_place_callable T \<longrightarrow> storage oth2 = storage (any_callable_field a))"
    and h2: "heap w2 = heap w1" "next_block w2 = next_block w1" "news w2 = news w1" "deletes w2 = deletes w1"
        "copied w2 = copied w1" "moved w2 + destroyed w1 = moved w1 + destroyed w2"
  proof (cases sa)
    case None
    with a have "operations (any_callable_field a) = None" by (simp add: is_empty_def)
    from swap_step_empty[OF this] None that this o1 show ?thesis by simp
  next
    case (Some p)
    obtain T v where p: "p = (T, v)" by (cases p)
    from a ma Some p h1 have "cell_holds (any_callable_field a) w1 T v" "relocatable T v"
      by (simp_all add: holds_cell cell_holds_def)
    from swap_step_occupied[OF this, of oth1] Some p that show ?thesis by auto
  qed
  obtain this3 temp3 w3 where s3: "swap_step this2 temp1 w2 = (Returns (), this3, temp3, w3)"
    and t3: "case sb of None \<Rightarrow> operations this3 = None | Some (T, v) \<Rightarrow> cell_holds this3 w3 T v \<and>
               (\<not> In_place_callable T \<longrightarrow> storage this3 = storage (any_callable_field b))"
    and h3: "heap w3 = heap w2" "next_block w3 = next_block w2" "news w3 = news w2" "deletes w3 = deletes w2"
        "copied w3 = copied w2" "moved w3 + destroyed w2 = moved w2 + destroyed w3"
  proof (cases sb)
    case None
    with t1 have "operations temp1 = None" by simp
    from swap_step_empty[OF this] None that o2 show ?thesis by simp
  next
    case (Some p)
    obtain T v where p: "p = (T, v)" by (cases p)
    from t1 mb Some p have c: "cell_holds temp1 w1 T v" and r: "relocatable T v"
      and st: "\<not> In_place_callable T \<longrightarrow> storage temp1 = storage (any_callable_field b)"
      by simp_all
    from swap_step_occupied[OF cell_holds_heap[OF c h2(1)] r, of this2] st Some p that
    show ?thesis by auto
  qed
  have ia: "invoker_field a = map_option fst sa" using a
    by (cases sa) (auto simp: is_empty_def holds_def)
  have ib: "invoker_field b = map_option fst sb" using b
    by (cases sb) (auto simp: is_empty_def holds_def)
  have ca: "contains \<lparr>any_callable_field = this3, invoker_field = invoker_field b\<rparr> w3 sb"
    using t3 ib by (cases sb) (auto simp: is_empty_def holds_cell)
  have cb: "contains \<lparr>any_callable_field = oth2, invoker_field = invoker_field a\<rparr> w3 sa"
    using t2 ia h3 by (cases sa) (auto simp: is_empty_def holds_cell cell_holds_def)
  have pa: "\<forall>T v. sb = Some (T, v) \<and> \<not> In_place_callable T \<longrightarrow>
              storage this3 = storage (any_callable_field b)"
    using t3 by auto
  have pb: "\<forall>T v. sa = Some (T, v) \<and> \<not> In_place_callable T \<longrightarrow>
              storage oth2 = storage (any_callable_field a)"
    using t2 by auto
  from function_swap_unfold[OF s1 s2 s3] ca cb h1 h2 h3 pa pb show ?thesis by simp
qed

lemma operator_call_empty:
  "operations (any_callable_field f) = None \<Longrightarrow>
   operator_call f args w = (Throws (Runtime_error ''bad function call''), f, w)"
  by (simp add: operator_call_def)

lemma operator_call_occupied:
  "holds f w T v \<Longrightarrow> fst (operator_call f args w) = of_sum (fst (call_operator T v args))"
  by (auto simp: holds_def operator_call_def manager_invoke_def in_place_invoke_def
      large_invoke_def in_place_get_ref_def large_get_ref_def large_get_ptr_def
      split: prod.splits)

lemma move_function_empty:
  "operations (any_callable_field oth) = None \<Longrightarrow>
   move_function junk oth w = (Returns (default_function junk), oth, w)"
  by (simp add: move_function_def)

lemma move_function_step:
  "operations (any_callable_field oth) = Some T \<Longrightarrow>
   swap_step \<lparr>storage = junk, operations = None\<rparr> (any_callable_field oth) w = (Returns (), a, b, w') \<Longrightarrow>
   move_function junk oth w =
     (Returns \<lparr>any_callable_field = a, invoker_field = invoker_field oth\<rparr>,
      oth\<lparr>any_callable_field := b, invoker_field := None\<rparr>, w')"
  by (simp add: move_function_def swap_step_def default_function_def)

lemma move_function_occupied:
  assumes "holds oth w T v" "relocatable T v"
  shows "\<exists>dst w'. move_function junk oth w =
             (Returns dst,
              oth\<lparr>any_callable_field := (any_callable_field oth)\<lparr>operations := None\<rparr>,
                  invoker_field := None\<rparr>, w') \<and>
           holds dst w' T v \<and> heap w' = heap w \<and> next_block w' = next_block w \<and>
           news w' = news w \<and> deletes w' = deletes w \<and> copied w' = copied w \<and>
           moved w' + destroyed w = moved w + destroyed w' \<and>
           (\<not> In_place_callable T \<longrightarrow>
              storage (any_callable_field dst) = storage (any_callable_field oth) \<and> w' = w)"
proof -
  from assms have c: "cell_holds (any_callable_field oth) w T v" and i: "invoker_field oth = Some T"
    and o: "operations (any_callable_field oth) = Some T"
    by (simp_all add: holds_cell cell_holds_def)
  from swap_step_occupied[OF c assms(2), of "\<lparr>storage = junk, operations = None\<rparr>"]
  obtain dst' w' where s: "swap_step \<lparr>storage = junk, operations = None\<rparr> (any_callable_field oth) w =
       (Returns (), dst', (any_callable_field oth)\<lparr>operations := None\<rparr>, w')"
    and r: "cell_holds dst' w' T v" "heap w' = heap w" "next_block w' = next_block w"
      "news w' = news w" "deletes w' = deletes w" "copied w' = copied w"
      "moved w' + destroyed w = moved w + destroyed w'"
      "\<not> In_place_callable T \<longrightarrow> storage dst' = storage (any_callable_field oth) \<and> w' = w"
    by blast
  from move_function_step[OF o s] r i show ?thesis by (simp add: holds_cell)
qed

subsection \<open>The fixtures\<close>

lemmas layout_defs = In_place_callable_def sizeof_Callable_storage_def alignment_of_Callable_storage_def

lemmas fixture_defs = small_closure_def large_closure_def guarded_closure_def uncopyable_closure_def
  fresh_world_def zeroes_def pattern_def small_fixture_def small_world_def large_fixture_def
  large_world_def

lemma small_fixture_built:
  "function_from_callable pattern small_closure (Lvalue [2]) fresh_world =
     (Returns small_fixture, small_world)"
  by (simp add: function_from_callable_def function_set_def manager_store_def in_place_store_def
      default_function_def layout_defs fixture_defs)

lemma large_fixture_built:
  "function_from_callable pattern large_closure (Rvalue [1, 2, 3, 4]) fresh_world =
     (Returns large_fixture, large_world)"
  by (simp add: function_from_callable_def function_set_def manager_store_def large_store_def
      default_function_def layout_defs fixture_defs)

lemma small_fixture_holds: "holds small_fixture small_world small_closure [2]"
  by (simp add: holds_def layout_defs fixture_defs)

lemma large_fixture_holds: "holds large_fixture large_world large_closure [1, 2, 3, 4]"
  by (simp add: holds_def layout_defs fixture_defs)

lemma small_closure_relocatable: "relocatable small_closure [a]"
  by (simp add: relocatable_def faithful_move_def overlays_def small_closure_def)

lemma large_closure_relocatable: "relocatable large_closure v"
  by (simp add: relocatable_def layout_defs large_closure_def)

subsection \<open>Copying, destroying and calling\<close>

lemma copy_function_empty:
  "operations (any_callable_field oth) = None \<Longrightarrow>
   copy_function junk oth w = (Returns (default_function junk), w)"
  by (simp add: copy_function_def)

lemma copy_function_inline:
  "holds oth w T v \<Longrightarrow> In_place_callable T \<Longrightarrow>
   copy_function junk oth w =
     (case copy_constructor T v of
        Inl e \<Rightarrow> (Throws e, w)
      | Inr v' \<Rightarrow>
          (Returns \<lparr>any_callable_field = \<lparr>storage = placement T v' junk, operations = Some T\<rparr>,
                    invoker_field = Some T\<rparr>,
           w\<lparr>copied := copied w + 1\<rparr>))"
  by (auto simp: holds_def copy_function_def create_operations_def templated_copy_def
      manager_get_ref_def manager_store_def in_place_store_def in_place_get_ref_def
      default_function_def split: sum.splits)

lemma copy_function_boxed:
  "holds oth w T v \<Longrightarrow> \<not> In_place_callable T \<Longrightarrow>
   copy_function junk oth w =
     (if next_block w = 0 \<or> heap w (next_block w) \<noteq> None then (Throws Bad_alloc, w)
      else (case copy_constructor T v of
              Inl e \<Rightarrow> (Throws e, w\<lparr>news := news w + 1, deletes := deletes w + 1\<rparr>)
            | Inr v' \<Rightarrow>
                (Returns \<lparr>any_callable_field =
                            \<lparr>storage = junk\<lparr>mem1 := next_block w\<rparr>, operations = Some T\<rparr>,
                          invoker_field = Some T\<rparr>,
                 w\<lparr>heap := (heap w)(next_block w \<mapsto> v'), next_block := next_block w + 1,
                   news := news w + 1, copied := copied w + 1\<rparr>)))"
  by (auto simp: holds_def copy_function_def create_operations_def templated_copy_def
      manager_get_ref_def manager_store_def large_store_def large_get_ref_def large_get_ptr_def
      default_function_def split: sum.splits)

lemma copy_function_occupied:
  assumes h: "holds x w T v" and c: "copy_constructor T v = Inr v"
    and o: "In_place_callable T \<longrightarrow> overlays T v"
    and a: "\<not> In_place_callable T \<longrightarrow> next_block w \<noteq> 0 \<and> heap w (next_block w) = None"
  shows "\<exists>y w'. copy_function junk x w = (Returns y, w') \<and> holds y w' T v \<and> holds x w' T v \<and>
           copied w' = copied w + 1 \<and> moved w' = moved w \<and> destroyed w' = destroyed w \<and>
           deletes w' = deletes w \<and>
           (In_place_callable T \<longrightarrow> heap w' = heap w \<and> news w' = news w \<and>
              next_block w' = next_block w) \<and>
           (\<not> In_place_callable T \<longrightarrow>
              mem1 (storage (any_callable_field y)) = next_block w \<and>
              mem1 (storage (any_callable_field y)) \<noteq> mem1 (storage (any_callable_field x)) \<and>
              heap w' = (heap w)(next_block w \<mapsto> v) \<and> news w' = news w + 1)"
proof (cases "In_place_callable T")
  case True
  with copy_function_inline[OF h True, of junk] c o h show ?thesis
    by (simp add: holds_def overlays_def)
next
  case False
  with a h have "mem1 (storage (any_callable_field x)) \<noteq> next_block w"
    by (auto simp: holds_def)
  with copy_function_boxed[OF h False, of junk] c a h False show ?thesis
    by (auto simp: holds_def)
qed

lemma copy_function_outcome:
  assumes h: "holds x w T v"
  shows "(\<exists>y w' v'. copy_function junk x w = (Returns y, w') \<and> copy_constructor T v = Inr v' \<and>
            (\<not> In_place_callable T \<longrightarrow> next_block w \<noteq> 0 \<and> heap w (next_block w) = None)) \<or>
         (\<exists>e w'. copy_function junk x w = (Throws e, w') \<and> heap w' = heap w \<and>
            next_block w' = next_block w \<and> copied w' = copied w \<and> moved w' = moved w \<and>
            destroyed w' = destroyed w)"
proof (cases "In_place_callable T")
  case True
  from copy_function_inline[OF h True, of junk] show ?thesis
    by (cases "copy_constructor T v") (simp_all add: True)
next
  case False
  from copy_function_boxed[OF h False, of junk] show ?thesis
    by (cases "copy_constructor T v") (auto simp: False)
qed

lemma destructor_empty:
  "operations (any_callable_field f) = None \<Longrightarrow> destructor f w = (Returns (), w)"
  by (simp add: destructor_def operator_bool_def)

lemma destructor_inline:
  "holds f w T v \<Longrightarrow> In_place_callable T \<Longrightarrow>
   destructor f w = (Returns (), w\<lparr>destroyed := destroyed w + 1\<rparr>)"
  by (simp add: holds_def destructor_def operator_bool_def function_unset_def create_operations_def
      templated_destroy_def manager_destroy_def in_place_destroy_def)

lemma destructor_boxed:
  "holds f w T v \<Longrightarrow> \<not> In_place_callable T \<Longrightarrow>
   destructor f w =
     (Returns (),
      w\<lparr>heap := (heap w)(mem1 (storage (any_callable_field f)) := None),
        deletes := deletes w + 1, destroyed := destroyed w + 1\<rparr>)"
  by (simp add: holds_def destructor_def operator_bool_def function_unset_def create_operations_def
      templated_destroy_def manager_destroy_def large_destroy_def large_get_ptr_def)

lemma operator_call_inline:
  "holds f w T v \<Longrightarrow> In_place_callable T \<Longrightarrow>
   operator_call f args w =
     (of_sum (fst (call_operator T v args)),
      f\<lparr>any_callable_field := (any_callable_field f)
          \<lparr>storage := placement T (snd (call_operator T v args)) (storage (any_callable_field f))\<rparr>\<rparr>,
      w)"
  by (auto simp: holds_def operator_call_def manager_invoke_def in_place_invoke_def
      in_place_get_ref_def split: prod.splits)

lemma operator_call_boxed:
  "holds f w T v \<Longrightarrow> \<not> In_place_callable T \<Longrightarrow>
   operator_call f args w =
     (of_sum (fst (call_operator T v args)), f,
      w\<lparr>heap := (heap w)(mem1 (storage (any_callable_field f)) \<mapsto> snd (call_operator T v args))\<rparr>)"
  by (auto simp: holds_def operator_call_def manager_invoke_def large_invoke_def
      large_get_ref_def large_get_ptr_def split: prod.splits)

text \<open>A call through one container leaves what another container holds.\<close>

lemma operator_call_frame:
  assumes f: "holds f w T v" and g: "holds g w U u"
    and d: "\<not> In_place_callable T \<and> \<not> In_place_callable U \<longrightarrow>
              mem1 (storage (any_callable_field f)) \<noteq> mem1 (storage (any_callable_field g))"
  shows "holds g (snd (snd (operator_call f args w))) U u"
proof (cases "In_place_callable T")
  case True
  from operator_call_inline[OF f True, of args] g show ?thesis by (simp add: holds_def)
next
  case False
  from operator_call_boxed[OF f False, of args] g d False show ?thesis
    by (auto simp: holds_def)
qed

subsection \<open>Abstract states\<close>

lemma contains_references:
  "contains f w s \<Longrightarrow>
   operations (any_callable_field f) = map_option fst s \<and> invoker_field f = map_option fst s"
  by (cases s) (auto simp: is_empty_def holds_def)

subsection \<open>Assignment from a container\<close>

lemma operator_assign_unfold:
  "function_swap junk this oth w = (Returns (), this', oth', w') \<Longrightarrow>
   destructor oth' w' = (r, w'') \<Longrightarrow>
   operator_assign junk this oth w = (r, this', w'')"
  by (simp add: operator_assign_def)

lemma contains_heap: "contains f w s \<Longrightarrow> heap w' = heap w \<Longrightarrow> contains f w' s"
  by (cases s) (auto simp: holds_def)

text \<open>
  The body of \<open>operator=(function oth)\<close>: the target takes over what the parameter
  held, and what the target held before is destroyed with the parameter, once.
\<close>

lemma operator_assign_replaces:
  assumes t: "contains this w st" and o: "contains oth w so"
    and mt: "movable st" and mo: "movable so"
    and d: "\<forall>T v U u. st = Some (T, v) \<and> so = Some (U, u) \<and>
              \<not> In_place_callable T \<and> \<not> In_place_callable U \<longrightarrow>
              mem1 (storage (any_callable_field this)) \<noteq> mem1 (storage (any_callable_field oth))"
  shows "\<exists>this' w'. operator_assign junk this oth w = (Returns (), this', w') \<and>
           contains this' w' so \<and> news w' = news w \<and> copied w' = copied w \<and>
           next_block w' = next_block w \<and>
           (st = None \<longrightarrow> heap w' = heap w \<and> deletes w' = deletes w) \<and>
           (\<forall>T v. st = Some (T, v) \<and> In_place_callable T \<longrightarrow>
              heap w' = heap w \<and> deletes w' = deletes w) \<and>
           (\<forall>T v. st = Some (T, v) \<and> \<not> In_place_callable T \<longrightarrow>
              heap w' = (heap w)(mem1 (storage (any_callable_field this)) := None) \<and>
              deletes w' = deletes w + 1)"
proof -
  from function_swap_exchanges[OF t o mt mo, of junk] obtain this' oth' w1 where
    s: "function_swap junk this oth w = (Returns (), this', oth', w1)"
    and c: "contains this' w1 so" "contains oth' w1 st"
    and e: "heap w1 = heap w" "next_block w1 = next_block w" "news w1 = news w"
      "deletes w1 = deletes w" "copied w1 = copied w"
    and p: "\<forall>T v. so = Some (T, v) \<and> \<not> In_place_callable T \<longrightarrow>
              storage (any_callable_field this') = storage (any_callable_field oth)"
           "\<forall>T v. st = Some (T, v) \<and> \<not> In_place_callable T \<longrightarrow>
              storage (any_callable_field oth') = storage (any_callable_field this)"
    by blast
  show ?thesis
  proof (cases st)
    case None
    with c have "operations (any_callable_field oth') = None" by (simp add: is_empty_def)
    from operator_assign_unfold[OF s destructor_empty[OF this]] c e None show ?thesis by simp
  next
    case (Some q)
    obtain T v where q: "q = (T, v)" by (cases q)
    with Some c have h: "holds oth' w1 T v" by simp
    show ?thesis
    proof (cases "In_place_callable T")
      case True
      have "contains this' (w1\<lparr>destroyed := destroyed w1 + 1\<rparr>) so"
        using contains_heap[OF c(1)] by simp
      with operator_assign_unfold[OF s destructor_inline[OF h True]] e Some q True
      show ?thesis by simp
    next
      case False
      let ?p = "mem1 (storage (any_callable_field oth'))"
      let ?w = "w1\<lparr>heap := (heap w1)(?p := None), deletes := deletes w1 + 1,
                   destroyed := destroyed w1 + 1\<rparr>"
      from p(2) Some q False have po: "?p = mem1 (storage (any_callable_field this))" by simp
      have "contains this' ?w so"
      proof (cases so)
        case None
        with c(1) show ?thesis by simp
      next
        case (Some q')
        obtain U u where q': "q' = (U, u)" by (cases q')
        show ?thesis
        proof (cases "In_place_callable U")
          case True
          with c(1) Some q' show ?thesis by (simp add: holds_def)
        next
          case F: False
          with p(1) Some q' have "storage (any_callable_field this') = storage (any_callable_field oth)"
            by simp
          moreover from d \<open>st = Some q\<close> q Some q' False F
          have "mem1 (storage (any_callable_field this)) \<noteq> mem1 (storage (any_callable_field oth))"
            by simp
          ultimately show ?thesis using c(1) Some q' F po by (simp add: holds_def)
        qed
      qed
      with operator_assign_unfold[OF s destructor_boxed[OF h False]] e Some q False po
      show ?thesis by simp
    qed
  qed
qed

subsection \<open>Construction from a callable\<close>

lemma constructed_frame [simp]:
  "heap (constructed c w) = heap w" "news (constructed c w) = news w"
  "deletes (constructed c w) = deletes w" "next_block (constructed c w) = next_block w"
  "destroyed (constructed c w) = destroyed w"
  by (cases c; simp)+

lemma function_from_callable_inline:
  "In_place_callable T \<Longrightarrow>
   function_from_callable junk T c w =
     (case construct T c of
        Inl e \<Rightarrow> (Throws e, w)
      | Inr v \<Rightarrow>
          (Returns \<lparr>any_callable_field = \<lparr>storage = placement T v junk, operations = Some T\<rparr>,
                    invoker_field = Some T\<rparr>,
           constructed c w))"
  by (simp add: function_from_callable_def function_set_def manager_store_def in_place_store_def
      default_function_def split: sum.splits)

lemma function_from_callable_boxed:
  "\<not> In_place_callable T \<Longrightarrow>
   function_from_callable junk T c w =
     (if next_block w = 0 \<or> heap w (next_block w) \<noteq> None then (Throws Bad_alloc, w)
      else (case construct T c of
              Inl e \<Rightarrow> (Throws e, w\<lparr>news := news w + 1, deletes := deletes w + 1\<rparr>)
            | Inr v \<Rightarrow>
                (Returns \<lparr>any_callable_field =
                            \<lparr>storage = junk\<lparr>mem1 := next_block w\<rparr>, operations = Some T\<rparr>,
                          invoker_field = Some T\<rparr>,
                 constructed c
                   (w\<lparr>heap := (heap w)(next_block w \<mapsto> v), next_block := next_block w + 1,
                      news := news w + 1\<rparr>))))"
  by (simp add: function_from_callable_def function_set_def manager_store_def large_store_def
      default_function_def split: sum.splits)

subsection \<open>Assignment from a raw callable\<close>

lemma uncopyable_closure_is_boxed: "\<not> In_place_callable uncopyable_closure"
  by (simp add: layout_defs uncopyable_closure_def large_closure_def)

lemma small_closure_is_inline: "In_place_callable small_closure"
  by (simp add: layout_defs small_closure_def)

lemma small_fixture_in_large_world: "holds small_fixture large_world small_closure [2]"
  by (simp add: holds_def small_closure_is_inline) (simp add: small_fixture_def small_closure_def)

lemma uncopyable_fixture_holds:
  "holds uncopyable_fixture large_world uncopyable_closure [1, 2, 3, 4]"
  by (simp add: holds_def uncopyable_closure_is_boxed)
    (simp add: uncopyable_fixture_def large_world_def)

lemma function_unset_inline:
  "holds f w T v \<Longrightarrow> In_place_callable T \<Longrightarrow>
   function_unset f w =
     (Returns (), f\<lparr>any_callable_field := (any_callable_field f)\<lparr>operations := None\<rparr>\<rparr>,
      w\<lparr>destroyed := destroyed w + 1\<rparr>)"
  by (simp add: holds_def function_unset_def create_operations_def templated_destroy_def
      manager_destroy_def in_place_destroy_def)

lemma function_unset_small_fixture:
  "function_unset small_fixture large_world =
     (Returns (),
      small_fixture\<lparr>any_callable_field := (any_callable_field small_fixture)\<lparr>operations := None\<rparr>\<rparr>,
      large_world\<lparr>destroyed := 1\<rparr>)"
  by (simp add: function_unset_inline[OF small_fixture_in_large_world small_closure_is_inline])
    (simp add: large_world_def)

lemma function_set_uncopyable_throws:
  "function_set uncopyable_closure (Lvalue [1, 2, 3, 4]) f (large_world\<lparr>destroyed := d\<rparr>) =
     (Throws Bad_alloc, f, large_world\<lparr>destroyed := d, news := 2, deletes := 1\<rparr>)"
  by (simp add: function_set_def manager_store_def large_store_def uncopyable_closure_is_boxed)
    (simp add: large_world_def uncopyable_closure_def)

text \<open>On every path that returns, table and invoker are set together.\<close>

lemma function_set_returns:
  "function_set T c this w = (Returns (), this', w') \<Longrightarrow>
   operations (any_callable_field this') = Some T \<and> invoker_field this' = Some T"
  by (auto simp: function_set_def split: prod.splits outcome.splits)

lemma operator_assign_callable_returns:
  "operator_assign_callable T c this w = (Returns (), this', w') \<Longrightarrow>
   operations (any_callable_field this') = Some T \<and> invoker_field this' = Some T"
  by (auto simp: operator_assign_callable_def dest: function_set_returns
      split: if_splits prod.splits outcome.splits)

lemma operator_call_keeps_references:
  "operator_call f args w = (r, f', w') \<Longrightarrow>
   operations (any_callable_field f') = operations (any_callable_field f) \<and>
   invoker_field f' = invoker_field f"
  by (auto simp: operator_call_def manager_invoke_def in_place_invoke_def large_invoke_def
      split: if_splits option.splits prod.splits)

lemma copy_assign_strong_guarantee:
  "copy_function junk_p src w = (Throws e, w') \<Longrightarrow>
   copy_assign junk_p junk_t this src w = (Throws e, this, w')"
  by (simp add: copy_assign_def)

section \<open>The claims\<close>

text \<open>
  Claim C3. Invoking an empty container \<open>e\<close> throws the \<^verbatim>\<open>std::runtime_error\<close>
  "bad function call" and changes nothing, whatever its storage cells and its invoker
  hold (the outcome is the same for every storage content \<open>s\<close>); so does invoking a
  default-constructed container, and a container that a move construction has just
  emptied. Invoking a container that holds \<open>v\<close> of type \<open>T\<close> gives what \<open>T\<close>'s call
  operator gives on \<open>v\<close> and the arguments: its result when it returns, its exception,
  unchanged, when it throws.
\<close>

theorem invocation_of_empty_and_occupied:
  "(operations (any_callable_field e) = None \<longrightarrow>
      operator_call e args w = (Throws (Runtime_error ''bad function call''), e, w) \<and>
      fst (operator_call (e\<lparr>any_callable_field := (any_callable_field e)\<lparr>storage := s\<rparr>\<rparr>) args w) =
        fst (operator_call e args w)) \<and>
   operator_call (default_function junk) args w =
     (Throws (Runtime_error ''bad function call''), default_function junk, w) \<and>
   (holds f w T v \<and> relocatable T v \<longrightarrow>
      (\<exists>dst f' w'. move_function junk f w = (Returns dst, f', w') \<and>
         operator_call f' args w' = (Throws (Runtime_error ''bad function call''), f', w'))) \<and>
   (holds f w T v \<longrightarrow> fst (operator_call f args w) = of_sum (fst (call_operator T v args)))"
proof (intro conjI impI)
  assume "holds f w T v \<and> relocatable T v"
  then have h: "holds f w T v" "relocatable T v" by simp_all
  from move_function_occupied[OF h, of junk] obtain dst w' where
    "move_function junk f w =
       (Returns dst, f\<lparr>any_callable_field := (any_callable_field f)\<lparr>operations := None\<rparr>,
                       invoker_field := None\<rparr>, w')" by blast
  then show "\<exists>dst f' w'. move_function junk f w = (Returns dst, f', w') \<and>
       operator_call f' args w' = (Throws (Runtime_error ''bad function call''), f', w')"
    by (simp add: operator_call_empty)
qed (auto simp: operator_call_empty operator_call_occupied default_function_def)

theorem invocation_of_empty_and_occupied_witness:
  "operations (any_callable_field empty_fixture) = None \<and>
   holds small_fixture small_world small_closure [2] \<and> relocatable small_closure [2] \<and>
   operator_call empty_fixture 3 small_world =
     (Throws (Runtime_error ''bad function call''), empty_fixture, small_world) \<and>
   fst (operator_call small_fixture 3 small_world) = Returns 5"
proof -
  have h: "operations (any_callable_field empty_fixture) = None"
    "holds small_fixture small_world small_closure [2]" "relocatable small_closure [2]"
    by (simp_all add: empty_fixture_def default_function_def small_fixture_holds
        small_closure_relocatable)
  from invocation_of_empty_and_occupied[of empty_fixture 3 small_world pattern zeroes
      small_fixture small_closure "[2]"] h
  show ?thesis by (auto simp add: small_closure_def)
qed


text \<open>
  Claim C1 (amended). Move construction from a container that holds \<open>v\<close> of type \<open>T\<close>
  returns; the new container holds \<open>v\<close> and its invocation gives what the source's
  would have given; it has the source's table and invoker, and both are null in the
  source afterwards, whose emptiness test reports no callable and whose invocation
  throws. Nothing is duplicated: the heap, the allocation and deallocation counts and
  the number of copy constructions are unchanged, and every move construction is paired
  with a destruction. In boxed mode the pointer cell is copied with no allocation and
  no constructor call at all, and the source's storage is left exactly as it was: it
  still holds the pointer, and only the nulled table marks the source as empty. Move
  construction from an empty container gives an empty container and leaves the source
  alone. (In inline mode the callable's move constructor must yield the moved value
  and the placed object must read back as itself: \<open>relocatable\<close>.)
\<close>

theorem move_construction_transfers:
  "(holds src w T v \<and> relocatable T v \<longrightarrow>
      (\<exists>dst src' w'. move_function junk src w = (Returns dst, src', w') \<and>
         holds dst w' T v \<and>
         fst (operator_call dst args w') = fst (operator_call src args w) \<and>
         operations (any_callable_field dst) = operations (any_callable_field src) \<and>
         invoker_field dst = invoker_field src \<and>
         operations (any_callable_field src') = None \<and> invoker_field src' = None \<and>
         \<not> operator_bool src' \<and>
         fst (operator_call src' args w') = Throws (Runtime_error ''bad function call'') \<and>
         heap w' = heap w \<and> news w' = news w \<and> deletes w' = deletes w \<and>
         copied w' = copied w \<and> moved w' + destroyed w = moved w + destroyed w' \<and>
         (\<not> In_place_callable T \<longrightarrow>
            mem1 (storage (any_callable_field dst)) = mem1 (storage (any_callable_field src)) \<and>
            w' = w \<and>
            storage (any_callable_field src') = storage (any_callable_field src)))) \<and>
   (operations (any_callable_field e) = None \<longrightarrow>
      (\<exists>dst. move_function junk e w = (Returns dst, e, w) \<and> is_empty dst \<and> \<not> operator_bool dst))"
proof (intro conjI impI)
  assume "holds src w T v \<and> relocatable T v"
  then have h: "holds src w T v" "relocatable T v" by simp_all
  let ?src' = "src\<lparr>any_callable_field := (any_callable_field src)\<lparr>operations := None\<rparr>,
                  invoker_field := None\<rparr>"
  from move_function_occupied[OF h, of junk] obtain dst w' where
    m: "move_function junk src w = (Returns dst, ?src', w')"
    and r: "holds dst w' T v" "heap w' = heap w" "news w' = news w" "deletes w' = deletes w"
      "copied w' = copied w" "moved w' + destroyed w = moved w + destroyed w'"
      "\<not> In_place_callable T \<longrightarrow>
         storage (any_callable_field dst) = storage (any_callable_field src) \<and> w' = w"
    by blast
  have c: "fst (operator_call dst args w') = fst (operator_call src args w)"
    using operator_call_occupied[OF r(1)] operator_call_occupied[OF h(1)] by simp
  have t: "operations (any_callable_field dst) = operations (any_callable_field src)"
    "invoker_field dst = invoker_field src"
    using r(1) h(1) by (simp_all add: holds_def)
  have e: "fst (operator_call ?src' args w') = Throws (Runtime_error ''bad function call'')"
    by (simp add: operator_call_empty)
  show "\<exists>dst src' w'. move_function junk src w = (Returns dst, src', w') \<and>
         holds dst w' T v \<and>
         fst (operator_call dst args w') = fst (operator_call src args w) \<and>
         operations (any_callable_field dst) = operations (any_callable_field src) \<and>
         invoker_field dst = invoker_field src \<and>
         operations (any_callable_field src') = None \<and> invoker_field src' = None \<and>
         \<not> operator_bool src' \<and>
         fst (operator_call src' args w') = Throws (Runtime_error ''bad function call'') \<and>
         heap w' = heap w \<and> news w' = news w \<and> deletes w' = deletes w \<and>
         copied w' = copied w \<and> moved w' + destroyed w = moved w + destroyed w' \<and>
         (\<not> In_place_callable T \<longrightarrow>
            mem1 (storage (any_callable_field dst)) = mem1 (storage (any_callable_field src)) \<and>
            w' = w \<and>
            storage (any_callable_field src') = storage (any_callable_field src))"
    using m r c t e by (simp add: operator_bool_def)
next
  assume "operations (any_callable_field e) = None"
  then show "\<exists>dst. move_function junk e w = (Returns dst, e, w) \<and> is_empty dst \<and> \<not> operator_bool dst"
    by (simp add: move_function_empty is_empty_def operator_bool_def default_function_def)
qed

theorem move_construction_transfers_witness:
  "holds small_fixture small_world small_closure [2] \<and> relocatable small_closure [2] \<and>
   operations (any_callable_field empty_fixture) = None \<and>
   fst (operator_call small_fixture 3 small_world) = Returns 5 \<and>
   (\<exists>dst src' w'. move_function zeroes small_fixture small_world = (Returns dst, src', w') \<and>
      fst (operator_call dst 3 w') = Returns 5 \<and> \<not> operator_bool src' \<and>
      fst (operator_call src' 3 w') = Throws (Runtime_error ''bad function call'')) \<and>
   holds large_fixture large_world large_closure [1, 2, 3, 4] \<and>
   relocatable large_closure [1, 2, 3, 4] \<and> \<not> In_place_callable large_closure \<and>
   (\<exists>dst src'. move_function zeroes large_fixture large_world = (Returns dst, src', large_world) \<and>
      fst (operator_call dst 3 large_world) = Returns 13 \<and> \<not> operator_bool src' \<and>
      mem1 (storage (any_callable_field dst)) = 1) \<and>
   (\<exists>dst. move_function zeroes empty_fixture small_world = (Returns dst, empty_fixture, small_world) \<and>
      is_empty dst)"
proof -
  have h: "operations (any_callable_field empty_fixture) = None"
    "\<not> In_place_callable large_closure"
    by (simp_all add: empty_fixture_def default_function_def layout_defs large_closure_def)
  have s: "fst (operator_call small_fixture 3 small_world) = Returns 5"
    using operator_call_occupied[OF small_fixture_holds] by (simp add: small_closure_def)
  have l: "fst (operator_call large_fixture 3 large_world) = Returns 13"
    using operator_call_occupied[OF large_fixture_holds] by (simp add: large_closure_def)
  have p: "mem1 (storage (any_callable_field large_fixture)) = 1"
    by (simp add: large_fixture_def)
  from move_construction_transfers[of small_fixture small_world small_closure "[2]" zeroes 3
      empty_fixture]
    move_construction_transfers[of large_fixture large_world large_closure "[1, 2, 3, 4]" zeroes 3
      empty_fixture]
    h s l p small_fixture_holds large_fixture_holds small_closure_relocatable
    large_closure_relocatable
  show ?thesis by (simp only: simp_thms) blast
qed

text \<open>
  The clause of C1 as stated, that the boxed-mode move clears the source's heap
  reference, fails: after the move the source's pointer cell is non-null and equals the
  destination's, and it points to the block that the destination now owns.
\<close>

theorem boxed_move_leaves_the_pointer_in_the_source:
  "function_from_callable pattern large_closure (Rvalue [1, 2, 3, 4]) fresh_world =
     (Returns large_fixture, large_world) \<and>
   \<not> In_place_callable large_closure \<and>
   mem1 (storage (any_callable_field (fst (snd (move_function zeroes large_fixture large_world))))) =
     mem1 (storage (any_callable_field large_fixture)) \<and>
   mem1 (storage (any_callable_field (fst (snd (move_function zeroes large_fixture large_world))))) \<noteq> 0 \<and>
   heap (snd (snd (move_function zeroes large_fixture large_world)))
     (mem1 (storage (any_callable_field (fst (snd (move_function zeroes large_fixture large_world)))))) =
     Some [1, 2, 3, 4]"
proof -
  have "move_function zeroes large_fixture large_world =
          (Returns \<lparr>any_callable_field =
                      \<lparr>storage = storage (any_callable_field large_fixture),
                       operations = Some large_closure\<rparr>,
                    invoker_field = Some large_closure\<rparr>,
           large_fixture\<lparr>any_callable_field :=
                           (any_callable_field large_fixture)\<lparr>operations := None\<rparr>,
                         invoker_field := None\<rparr>,
           large_world)"
    by (simp add: move_function_def create_operations_def templated_move_def
        manager_move_and_destroy_def large_move_and_destroy_def default_function_def layout_defs
        large_fixture_def large_closure_def)
  then show ?thesis
    by (simp add: large_fixture_built)
      (simp add: layout_defs large_closure_def large_fixture_def large_world_def)
qed

text \<open>
  Claim C8. For containers \<open>a\<close> and \<open>b\<close> in any of the abstract states (empty, or
  holding a callable of any concrete type, inline or boxed, the two types unrelated),
  \<open>a.swap(b)\<close> returns and exchanges the states: \<open>a\<close> then holds what \<open>b\<close> held and
  \<open>b\<close> what \<open>a\<close> held, table and invoker references are exchanged, a boxed callable's
  storage cells travel as they are, and the heap and the allocation counts are
  untouched. A second swap returns too and restores both states. The state of an
  empty container is its being empty: its storage cells have no meaning and are not
  part of the exchange. (A callable stored inline must be \<open>relocatable\<close>.)
\<close>

theorem swap_exchanges_and_twice_restores:
  "contains a w sa \<and> contains b w sb \<and> movable sa \<and> movable sb \<longrightarrow>
     (\<exists>a1 b1 w1 a2 b2 w2.
        function_swap junk1 a b w = (Returns (), a1, b1, w1) \<and>
        function_swap junk2 a1 b1 w1 = (Returns (), a2, b2, w2) \<and>
        contains a1 w1 sb \<and> contains b1 w1 sa \<and>
        contains a2 w2 sa \<and> contains b2 w2 sb \<and>
        operations (any_callable_field a1) = operations (any_callable_field b) \<and>
        invoker_field a1 = invoker_field b \<and>
        operations (any_callable_field b1) = operations (any_callable_field a) \<and>
        invoker_field b1 = invoker_field a \<and>
        operations (any_callable_field a2) = operations (any_callable_field a) \<and>
        invoker_field a2 = invoker_field a \<and>
        operations (any_callable_field b2) = operations (any_callable_field b) \<and>
        invoker_field b2 = invoker_field b \<and>
        (\<forall>T v. sb = Some (T, v) \<and> \<not> In_place_callable T \<longrightarrow>
           storage (any_callable_field a1) = storage (any_callable_field b) \<and>
           storage (any_callable_field b2) = storage (any_callable_field b)) \<and>
        (\<forall>T v. sa = Some (T, v) \<and> \<not> In_place_callable T \<longrightarrow>
           storage (any_callable_field b1) = storage (any_callable_field a) \<and>
           storage (any_callable_field a2) = storage (any_callable_field a)) \<and>
        heap w1 = heap w \<and> heap w2 = heap w \<and>
        news w2 = news w \<and> deletes w2 = deletes w \<and> copied w2 = copied w)"
proof
  assume "contains a w sa \<and> contains b w sb \<and> movable sa \<and> movable sb"
  then have h: "contains a w sa" "contains b w sb" "movable sa" "movable sb" by simp_all
  from function_swap_exchanges[OF h, of junk1] obtain a1 b1 w1 where
    s1: "function_swap junk1 a b w = (Returns (), a1, b1, w1)"
    and c1: "contains a1 w1 sb" "contains b1 w1 sa"
    and e1: "heap w1 = heap w" "news w1 = news w" "deletes w1 = deletes w" "copied w1 = copied w"
    and p1: "\<forall>T v. sb = Some (T, v) \<and> \<not> In_place_callable T \<longrightarrow>
               storage (any_callable_field a1) = storage (any_callable_field b)"
            "\<forall>T v. sa = Some (T, v) \<and> \<not> In_place_callable T \<longrightarrow>
               storage (any_callable_field b1) = storage (any_callable_field a)"
    by blast
  from function_swap_exchanges[OF c1 h(4) h(3), of junk2] obtain a2 b2 w2 where
    s2: "function_swap junk2 a1 b1 w1 = (Returns (), a2, b2, w2)"
    and c2: "contains a2 w2 sa" "contains b2 w2 sb"
    and e2: "heap w2 = heap w1" "news w2 = news w1" "deletes w2 = deletes w1" "copied w2 = copied w1"
    and p2: "\<forall>T v. sa = Some (T, v) \<and> \<not> In_place_callable T \<longrightarrow>
               storage (any_callable_field a2) = storage (any_callable_field b1)"
            "\<forall>T v. sb = Some (T, v) \<and> \<not> In_place_callable T \<longrightarrow>
               storage (any_callable_field b2) = storage (any_callable_field a1)"
    by blast
  note r = contains_references[OF h(1)] contains_references[OF h(2)]
    contains_references[OF c1(1)] contains_references[OF c1(2)]
    contains_references[OF c2(1)] contains_references[OF c2(2)]
  have q: "\<forall>T v. sb = Some (T, v) \<and> \<not> In_place_callable T \<longrightarrow>
           storage (any_callable_field a1) = storage (any_callable_field b) \<and>
           storage (any_callable_field b2) = storage (any_callable_field b)"
    "\<forall>T v. sa = Some (T, v) \<and> \<not> In_place_callable T \<longrightarrow>
           storage (any_callable_field b1) = storage (any_callable_field a) \<and>
           storage (any_callable_field a2) = storage (any_callable_field a)"
    using p1 p2 by auto
  show "\<exists>a1 b1 w1 a2 b2 w2.
        function_swap junk1 a b w = (Returns (), a1, b1, w1) \<and>
        function_swap junk2 a1 b1 w1 = (Returns (), a2, b2, w2) \<and>
        contains a1 w1 sb \<and> contains b1 w1 sa \<and>
        contains a2 w2 sa \<and> contains b2 w2 sb \<and>
        operations (any_callable_field a1) = operations (any_callable_field b) \<and>
        invoker_field a1 = invoker_field b \<and>
        operations (any_callable_field b1) = operations (any_callable_field a) \<and>
        invoker_field b1 = invoker_field a \<and>
        operations (any_callable_field a2) = operations (any_callable_field a) \<and>
        invoker_field a2 = invoker_field a \<and>
        operations (any_callable_field b2) = operations (any_callable_field b) \<and>
        invoker_field b2 = invoker_field b \<and>
        (\<forall>T v. sb = Some (T, v) \<and> \<not> In_place_callable T \<longrightarrow>
           storage (any_callable_field a1) = storage (any_callable_field b) \<and>
           storage (any_callable_field b2) = storage (any_callable_field b)) \<and>
        (\<forall>T v. sa = Some (T, v) \<and> \<not> In_place_callable T \<longrightarrow>
           storage (any_callable_field b1) = storage (any_callable_field a) \<and>
           storage (any_callable_field a2) = storage (any_callable_field a)) \<and>
        heap w1 = heap w \<and> heap w2 = heap w \<and>
        news w2 = news w \<and> deletes w2 = deletes w \<and> copied w2 = copied w"
    apply (rule exI[of _ a1], rule exI[of _ b1], rule exI[of _ w1])
    apply (rule exI[of _ a2], rule exI[of _ b2], rule exI[of _ w2])
    using s1 s2 c1 c2 e1 e2 r q by simp
qed

theorem swap_exchanges_and_twice_restores_witness:
  "contains small_fixture large_world (Some (small_closure, [2])) \<and>
   contains large_fixture large_world (Some (large_closure, [1, 2, 3, 4])) \<and>
   movable (Some (small_closure, [2])) \<and> movable (Some (large_closure, [1, 2, 3, 4])) \<and>
   fst (operator_call small_fixture 3 large_world) = Returns 5 \<and>
   fst (operator_call large_fixture 3 large_world) = Returns 13 \<and>
   (\<exists>a1 b1 w1 a2 b2 w2.
      function_swap pattern small_fixture large_fixture large_world = (Returns (), a1, b1, w1) \<and>
      function_swap zeroes a1 b1 w1 = (Returns (), a2, b2, w2) \<and>
      fst (operator_call a1 3 w1) = Returns 13 \<and> fst (operator_call b1 3 w1) = Returns 5 \<and>
      fst (operator_call a2 3 w2) = Returns 5 \<and> fst (operator_call b2 3 w2) = Returns 13 \<and>
      heap w2 = heap large_world)"
proof -
  have h: "contains small_fixture large_world (Some (small_closure, [2]))"
    "contains large_fixture large_world (Some (large_closure, [1, 2, 3, 4]))"
    "movable (Some (small_closure, [2]))" "movable (Some (large_closure, [1, 2, 3, 4]))"
    using large_fixture_holds small_closure_relocatable[of 2]
      large_closure_relocatable[of "[1, 2, 3, 4]"]
    by (simp_all add: holds_def layout_defs small_closure_def small_fixture_def)
  have v: "of_sum (fst (call_operator small_closure [2] 3)) = Returns (5 :: 64 word)"
    "of_sum (fst (call_operator large_closure [1, 2, 3, 4] 3)) = Returns (13 :: 64 word)"
    by (simp_all add: small_closure_def large_closure_def)
  have hyp: "contains small_fixture large_world (Some (small_closure, [2])) \<and>
      contains large_fixture large_world (Some (large_closure, [1, 2, 3, 4])) \<and>
      movable (Some (small_closure, [2])) \<and> movable (Some (large_closure, [1, 2, 3, 4]))"
    by (intro conjI) (rule h)+
  from swap_exchanges_and_twice_restores[of small_fixture large_world "Some (small_closure, [2])"
      large_fixture "Some (large_closure, [1, 2, 3, 4])" pattern zeroes, THEN mp, OF hyp]
  obtain a1 b1 w1 a2 b2 w2 where
    "function_swap pattern small_fixture large_fixture large_world = (Returns (), a1, b1, w1)"
    "function_swap zeroes a1 b1 w1 = (Returns (), a2, b2, w2)"
    "contains a1 w1 (Some (large_closure, [1, 2, 3, 4]))"
    "contains b1 w1 (Some (small_closure, [2]))"
    "contains a2 w2 (Some (small_closure, [2]))"
    "contains b2 w2 (Some (large_closure, [1, 2, 3, 4]))"
    "heap w2 = heap large_world"
    by (elim exE conjE) (rule that; assumption)
  with h v show ?thesis
    by (auto simp: operator_call_occupied)
qed

text \<open>
  Claim C2. Copy construction from a container \<open>x\<close> that holds \<open>v\<close> of type \<open>T\<close>
  returns whenever \<open>T\<close>'s copy constructor copies \<open>v\<close> and, in boxed mode, a block can
  be allocated. The copy \<open>y\<close> then holds \<open>v\<close> as well, and invoking it gives what
  invoking \<open>x\<close> gave at the time of the copy. The two are independent: whatever a call
  through \<open>y\<close> does to its captured state, \<open>x\<close> still holds \<open>v\<close>, and the other way
  round. After \<open>x\<close> is destroyed, \<open>y\<close> still holds \<open>v\<close> and its invocation still
  gives what \<open>x\<close>'s gave. In boxed mode the copy owns a block of its own: a new
  allocation at an address that was free before and differs from \<open>x\<close>'s.
\<close>

theorem copy_construction_is_independent:
  "holds x w T v \<and> copy_constructor T v = Inr v \<and>
   (In_place_callable T \<longrightarrow> overlays T v) \<and>
   (\<not> In_place_callable T \<longrightarrow> next_block w \<noteq> 0 \<and> heap w (next_block w) = None) \<longrightarrow>
     (\<exists>y w1. copy_function junk x w = (Returns y, w1) \<and>
        holds y w1 T v \<and> holds x w1 T v \<and>
        fst (operator_call y args w1) = fst (operator_call x args w) \<and>
        (\<forall>b. holds x (snd (snd (operator_call y b w1))) T v) \<and>
        (\<forall>b. holds y (snd (snd (operator_call x b w1))) T v) \<and>
        (\<exists>w2. destructor x w1 = (Returns (), w2) \<and> holds y w2 T v \<and>
           fst (operator_call y args w2) = fst (operator_call x args w)) \<and>
        copied w1 = copied w + 1 \<and>
        (\<not> In_place_callable T \<longrightarrow>
           mem1 (storage (any_callable_field y)) \<noteq> mem1 (storage (any_callable_field x)) \<and>
           heap w (mem1 (storage (any_callable_field y))) = None \<and>
           news w1 = news w + 1))"
proof
  assume "holds x w T v \<and> copy_constructor T v = Inr v \<and>
   (In_place_callable T \<longrightarrow> overlays T v) \<and>
   (\<not> In_place_callable T \<longrightarrow> next_block w \<noteq> 0 \<and> heap w (next_block w) = None)"
  then have h: "holds x w T v" and c: "copy_constructor T v = Inr v"
    and o: "In_place_callable T \<longrightarrow> overlays T v"
    and a: "\<not> In_place_callable T \<longrightarrow> next_block w \<noteq> 0 \<and> heap w (next_block w) = None"
    by simp_all
  from copy_function_occupied[OF h c o a, of junk] obtain y w1 where
    cf: "copy_function junk x w = (Returns y, w1)"
    and hy: "holds y w1 T v" and hx: "holds x w1 T v"
    and k: "copied w1 = copied w + 1"
    and p: "\<not> In_place_callable T \<longrightarrow>
              mem1 (storage (any_callable_field y)) = next_block w \<and>
              mem1 (storage (any_callable_field y)) \<noteq> mem1 (storage (any_callable_field x)) \<and>
              heap w1 = (heap w)(next_block w \<mapsto> v) \<and> news w1 = news w + 1"
    by blast
  have r: "fst (operator_call y args w1) = fst (operator_call x args w)"
    using operator_call_occupied[OF hy] operator_call_occupied[OF h] by simp
  have d1: "\<not> In_place_callable T \<and> \<not> In_place_callable T \<longrightarrow>
      mem1 (storage (any_callable_field y)) \<noteq> mem1 (storage (any_callable_field x))"
    using p by blast
  have d2: "\<not> In_place_callable T \<and> \<not> In_place_callable T \<longrightarrow>
      mem1 (storage (any_callable_field x)) \<noteq> mem1 (storage (any_callable_field y))"
    using p by auto
  have m1: "\<forall>b. holds x (snd (snd (operator_call y b w1))) T v"
    using operator_call_frame[OF hy hx d1] by simp
  have m2: "\<forall>b. holds y (snd (snd (operator_call x b w1))) T v"
    using operator_call_frame[OF hx hy d2] by simp
  have ds: "\<exists>w2. destructor x w1 = (Returns (), w2) \<and> holds y w2 T v"
  proof (cases "In_place_callable T")
    case True
    from destructor_inline[OF hx True] hy show ?thesis by (simp add: holds_def)
  next
    case False
    from destructor_boxed[OF hx False] hy p False show ?thesis by (auto simp: holds_def)
  qed
  then obtain w2 where w2: "destructor x w1 = (Returns (), w2)" "holds y w2 T v" by blast
  have r2: "fst (operator_call y args w2) = fst (operator_call x args w)"
    using operator_call_occupied[OF w2(2)] operator_call_occupied[OF h] by simp
  have fr: "\<not> In_place_callable T \<longrightarrow> heap w (mem1 (storage (any_callable_field y))) = None"
    using p a by simp
  show "\<exists>y w1. copy_function junk x w = (Returns y, w1) \<and>
        holds y w1 T v \<and> holds x w1 T v \<and>
        fst (operator_call y args w1) = fst (operator_call x args w) \<and>
        (\<forall>b. holds x (snd (snd (operator_call y b w1))) T v) \<and>
        (\<forall>b. holds y (snd (snd (operator_call x b w1))) T v) \<and>
        (\<exists>w2. destructor x w1 = (Returns (), w2) \<and> holds y w2 T v \<and>
           fst (operator_call y args w2) = fst (operator_call x args w)) \<and>
        copied w1 = copied w + 1 \<and>
        (\<not> In_place_callable T \<longrightarrow>
           mem1 (storage (any_callable_field y)) \<noteq> mem1 (storage (any_callable_field x)) \<and>
           heap w (mem1 (storage (any_callable_field y))) = None \<and>
           news w1 = news w + 1)"
    apply (rule exI[of _ y], rule exI[of _ w1])
    using cf hy hx r m1 m2 w2 r2 k p fr by auto
qed

theorem copy_construction_is_independent_witness:
  "holds large_fixture large_world large_closure [1, 2, 3, 4] \<and>
   copy_constructor large_closure [1, 2, 3, 4] = Inr [1, 2, 3, 4] \<and>
   \<not> In_place_callable large_closure \<and>
   next_block large_world \<noteq> 0 \<and> heap large_world (next_block large_world) = None \<and>
   fst (operator_call large_fixture 3 large_world) = Returns 13 \<and>
   (\<exists>y w1. copy_function zeroes large_fixture large_world = (Returns y, w1) \<and>
      fst (operator_call y 3 w1) = Returns 13 \<and>
      holds large_fixture (snd (snd (operator_call y 3 w1))) large_closure [1, 2, 3, 4] \<and>
      (\<exists>w2. destructor large_fixture w1 = (Returns (), w2) \<and>
         fst (operator_call y 3 w2) = Returns 13) \<and>
      mem1 (storage (any_callable_field y)) \<noteq> 1 \<and> news w1 = 2) \<and>
   holds small_fixture small_world small_closure [2] \<and>
   copy_constructor small_closure [2] = Inr [2] \<and>
   In_place_callable small_closure \<and> overlays small_closure [2] \<and>
   (\<exists>y w1. copy_function zeroes small_fixture small_world = (Returns y, w1) \<and>
      fst (operator_call y 3 w1) = Returns 5 \<and>
      (\<exists>w2. destructor small_fixture w1 = (Returns (), w2) \<and>
         fst (operator_call y 3 w2) = Returns 5))"
proof -
  have hl: "holds large_fixture large_world large_closure [1, 2, 3, 4] \<and>
      copy_constructor large_closure [1, 2, 3, 4] = Inr [1, 2, 3, 4] \<and>
      (In_place_callable large_closure \<longrightarrow> overlays large_closure [1, 2, 3, 4]) \<and>
      (\<not> In_place_callable large_closure \<longrightarrow>
         next_block large_world \<noteq> 0 \<and> heap large_world (next_block large_world) = None)"
    using large_fixture_holds by (simp add: layout_defs large_closure_def large_world_def)
  have hs: "holds small_fixture small_world small_closure [2] \<and>
      copy_constructor small_closure [2] = Inr [2] \<and>
      (In_place_callable small_closure \<longrightarrow> overlays small_closure [2]) \<and>
      (\<not> In_place_callable small_closure \<longrightarrow>
         next_block small_world \<noteq> 0 \<and> heap small_world (next_block small_world) = None)"
    using small_fixture_holds by (simp add: layout_defs small_closure_def overlays_def)
  have e: "\<not> In_place_callable large_closure" "In_place_callable small_closure"
    "overlays small_closure [2]"
    "next_block large_world \<noteq> 0" "heap large_world (next_block large_world) = None"
    "copy_constructor large_closure [1, 2, 3, 4] = Inr [1, 2, 3, 4]"
    "copy_constructor small_closure [2] = Inr [2]"
    "mem1 (storage (any_callable_field large_fixture)) = 1" "news large_world = 1"
    by (simp_all add: layout_defs large_closure_def small_closure_def overlays_def large_world_def
        large_fixture_def)
  have v: "fst (operator_call small_fixture 3 small_world) = Returns 5"
    "fst (operator_call large_fixture 3 large_world) = Returns 13"
    using operator_call_occupied[OF small_fixture_holds] operator_call_occupied[OF large_fixture_holds]
    by (simp_all add: small_closure_def large_closure_def)
  from copy_construction_is_independent[of large_fixture large_world large_closure "[1, 2, 3, 4]"
      zeroes 3, THEN mp, OF hl]
  obtain y w1 w2 where l: "copy_function zeroes large_fixture large_world = (Returns y, w1)"
    "fst (operator_call y 3 w1) = fst (operator_call large_fixture 3 large_world)"
    "\<forall>b. holds large_fixture (snd (snd (operator_call y b w1))) large_closure [1, 2, 3, 4]"
    "destructor large_fixture w1 = (Returns (), w2)"
    "fst (operator_call y 3 w2) = fst (operator_call large_fixture 3 large_world)"
    "\<not> In_place_callable large_closure \<longrightarrow>
       mem1 (storage (any_callable_field y)) \<noteq> mem1 (storage (any_callable_field large_fixture)) \<and>
       heap large_world (mem1 (storage (any_callable_field y))) = None \<and>
       news w1 = news large_world + 1"
    by (elim exE conjE) (rule that; assumption)
  from copy_construction_is_independent[of small_fixture small_world small_closure "[2]"
      zeroes 3, THEN mp, OF hs]
  obtain y' w1' w2' where s: "copy_function zeroes small_fixture small_world = (Returns y', w1')"
    "fst (operator_call y' 3 w1') = fst (operator_call small_fixture 3 small_world)"
    "destructor small_fixture w1' = (Returns (), w2')"
    "fst (operator_call y' 3 w2') = fst (operator_call small_fixture 3 small_world)"
    by (elim exE conjE) (rule that; assumption)
  from l s e v small_fixture_holds large_fixture_holds show ?thesis by simp
qed

text \<open>
  Claim C9. \<open>x = x\<close> runs the container-to-container assignment with a parameter
  copy-constructed from \<open>x\<close>. For \<open>x\<close> empty or holding a callable (whose copy
  constructor copies it when it returns, and which is \<open>relocatable\<close> when stored
  inline), the assignment either returns, and then \<open>x\<close> is in the state it was in
  (empty as before, or holding the same callable of the same type, its invocation
  giving what it gave before), or it leaves by the exception of the copy, and then
  \<open>x\<close> has not been touched. It returns whenever \<open>x\<close> is empty, and whenever the
  copy constructor returns and, in boxed mode, a block can be allocated.
\<close>

theorem self_assignment_keeps_the_state:
  "contains x w s \<and> movable s \<and> (\<forall>T v. s = Some (T, v) \<longrightarrow> faithful_copy T v) \<longrightarrow>
     (\<exists>r x' w'. copy_assign junk_p junk_t x x w = (r, x', w') \<and>
        (r = Returns () \<and> contains x' w' s \<and>
           fst (operator_call x' args w') = fst (operator_call x args w) \<or>
         (\<exists>e. r = Throws e) \<and> x' = x \<and> contains x w' s) \<and>
        (s = None \<longrightarrow> r = Returns ()) \<and>
        (\<forall>T v. s = Some (T, v) \<and> copy_constructor T v = Inr v \<and>
           (\<not> In_place_callable T \<longrightarrow> next_block w \<noteq> 0 \<and> heap w (next_block w) = None) \<longrightarrow>
           r = Returns ()))"
proof
  assume "contains x w s \<and> movable s \<and> (\<forall>T v. s = Some (T, v) \<longrightarrow> faithful_copy T v)"
  then have c: "contains x w s" and m: "movable s"
    and f: "\<forall>T v. s = Some (T, v) \<longrightarrow> faithful_copy T v" by simp_all
  have call: "fst (operator_call x' args w') = fst (operator_call x args w)"
    if "contains x' w' s" for x' w'
  proof (cases s)
    case None
    with c that show ?thesis by (simp add: is_empty_def operator_call_empty)
  next
    case (Some q)
    obtain T v where "q = (T, v)" by (cases q)
    with Some c that show ?thesis by (simp add: operator_call_occupied)
  qed
  let ?goal = "\<lambda>r x' w'. copy_assign junk_p junk_t x x w = (r, x', w') \<and>
        (r = Returns () \<and> contains x' w' s \<and>
           fst (operator_call x' args w') = fst (operator_call x args w) \<or>
         (\<exists>e. r = Throws e) \<and> x' = x \<and> contains x w' s) \<and>
        (s = None \<longrightarrow> r = Returns ()) \<and>
        (\<forall>T v. s = Some (T, v) \<and> copy_constructor T v = Inr v \<and>
           (\<not> In_place_callable T \<longrightarrow> next_block w \<noteq> 0 \<and> heap w (next_block w) = None) \<longrightarrow>
           r = Returns ())"
  have "\<exists>x' w'. ?goal (Returns ()) x' w' \<or> (\<exists>e. ?goal (Throws e) x' w')"
  proof (cases s)
    case None
    with c have e: "operations (any_callable_field x) = None" by (simp add: is_empty_def)
    have ce: "contains (default_function junk_p) w None"
      by (simp add: is_empty_def default_function_def)
    from c None have cx: "contains x w None" by simp
    from operator_assign_replaces[OF cx ce, of junk_t] obtain x' w' where
      "operator_assign junk_t x (default_function junk_p) w = (Returns (), x', w')"
      "contains x' w' None" by auto
    with copy_function_empty[OF e, of junk_p] None call[of x' w'] show ?thesis
      by (auto simp: copy_assign_def)
  next
    case (Some q)
    obtain T v where q: "q = (T, v)" by (cases q)
    with Some c m f have h: "holds x w T v" and r: "relocatable T v" and fc: "faithful_copy T v"
      by simp_all
    from copy_function_outcome[OF h, of junk_p] show ?thesis
    proof (elim disjE exE conjE)
      fix y w1 v'
      assume cf: "copy_function junk_p x w = (Returns y, w1)"
        and cc: "copy_constructor T v = Inr v'"
        and al: "\<not> In_place_callable T \<longrightarrow> next_block w \<noteq> 0 \<and> heap w (next_block w) = None"
      from cc fc have cv: "copy_constructor T v = Inr v" by (auto simp: faithful_copy_def)
      from r have ov: "In_place_callable T \<longrightarrow> overlays T v" by (simp add: relocatable_def)
      from copy_function_occupied[OF h cv ov al, of junk_p] cf
      have hy: "holds y w1 T v" and hx: "holds x w1 T v"
        and ne: "\<not> In_place_callable T \<longrightarrow>
          mem1 (storage (any_callable_field y)) \<noteq> mem1 (storage (any_callable_field x))"
        by auto
      have cx: "contains x w1 (Some (T, v))" and cy: "contains y w1 (Some (T, v))"
        and mm: "movable (Some (T, v))"
        using hx hy r by simp_all
      have dd: "\<forall>T' v' U u. Some (T, v) = Some (T', v') \<and> Some (T, v) = Some (U, u) \<and>
              \<not> In_place_callable T' \<and> \<not> In_place_callable U \<longrightarrow>
              mem1 (storage (any_callable_field x)) \<noteq> mem1 (storage (any_callable_field y))"
        using ne by auto
      from operator_assign_replaces[OF cx cy mm mm dd, of junk_t] obtain x' w' where
        oa: "operator_assign junk_t x y w1 = (Returns (), x', w')"
        and cx': "contains x' w' (Some (T, v))" by blast
      from cf oa have "copy_assign junk_p junk_t x x w = (Returns (), x', w')"
        by (simp add: copy_assign_def)
      with cx' call[of x' w'] Some q show ?thesis by auto
    next
      fix e w'
      assume cf: "copy_function junk_p x w = (Throws e, w')" and hp: "heap w' = heap w"
      have nr: "\<not> (copy_constructor T v = Inr v \<and>
           (\<not> In_place_callable T \<longrightarrow> next_block w \<noteq> 0 \<and> heap w (next_block w) = None))"
      proof
        assume a: "copy_constructor T v = Inr v \<and>
           (\<not> In_place_callable T \<longrightarrow> next_block w \<noteq> 0 \<and> heap w (next_block w) = None)"
        from r have ov: "In_place_callable T \<longrightarrow> overlays T v" by (simp add: relocatable_def)
        from copy_function_occupied[OF h _ ov, of junk_p] a cf show False by auto
      qed
      from cf have "copy_assign junk_p junk_t x x w = (Throws e, x, w')"
        by (simp add: copy_assign_def)
      with contains_heap[OF c hp] nr Some q show ?thesis by auto
    qed
  qed
  then show "\<exists>r x' w'. ?goal r x' w'" by blast
qed

theorem self_assignment_keeps_the_state_witness:
  "contains large_fixture large_world (Some (large_closure, [1, 2, 3, 4])) \<and>
   movable (Some (large_closure, [1, 2, 3, 4])) \<and>
   faithful_copy large_closure [1, 2, 3, 4] \<and>
   fst (operator_call large_fixture 3 large_world) = Returns 13 \<and>
   (\<exists>x' w'. copy_assign zeroes pattern large_fixture large_fixture large_world =
              (Returns (), x', w') \<and>
      contains x' w' (Some (large_closure, [1, 2, 3, 4])) \<and>
      fst (operator_call x' 3 w') = Returns 13)"
proof -
  let ?s = "Some (large_closure, [1 :: 64 word, 2, 3, 4])"
  have fc: "faithful_copy large_closure [1, 2, 3, 4]"
    by (simp add: faithful_copy_def large_closure_def)
  have h: "contains large_fixture large_world ?s" "movable ?s"
    using large_fixture_holds large_closure_relocatable[of "[1, 2, 3, 4]"] by simp_all
  have hyp: "contains large_fixture large_world ?s \<and> movable ?s \<and>
      (\<forall>T v. ?s = Some (T, v) \<longrightarrow> faithful_copy T v)"
    using h fc by simp
  have ok: "?s = Some (large_closure, [1, 2, 3, 4]) \<and>
      copy_constructor large_closure [1, 2, 3, 4] = Inr [1, 2, 3, 4] \<and>
      (\<not> In_place_callable large_closure \<longrightarrow>
         next_block large_world \<noteq> 0 \<and> heap large_world (next_block large_world) = None)"
    by (simp add: large_closure_def large_world_def)
  have v: "fst (operator_call large_fixture 3 large_world) = Returns 13"
    using operator_call_occupied[OF large_fixture_holds] by (simp add: large_closure_def)
  from self_assignment_keeps_the_state[of large_fixture large_world ?s zeroes pattern 3,
      THEN mp, OF hyp]
  obtain r x' w' where
    a: "copy_assign zeroes pattern large_fixture large_fixture large_world = (r, x', w')"
    and b: "r = Returns () \<and> contains x' w' ?s \<and>
           fst (operator_call x' 3 w') = fst (operator_call large_fixture 3 large_world) \<or>
         (\<exists>e. r = Throws e) \<and> x' = large_fixture \<and> contains large_fixture w' ?s"
    and c: "\<forall>T v. ?s = Some (T, v) \<and> copy_constructor T v = Inr v \<and>
           (\<not> In_place_callable T \<longrightarrow>
              next_block large_world \<noteq> 0 \<and> heap large_world (next_block large_world) = None) \<longrightarrow>
           r = Returns ()"
    by (elim exE conjE) (rule that; assumption)
  from c ok have "r = Returns ()" by blast
  with a b v have "copy_assign zeroes pattern large_fixture large_fixture large_world =
              (Returns (), x', w') \<and> contains x' w' ?s \<and> fst (operator_call x' 3 w') = Returns 13"
    by auto
  then have "\<exists>x' w'. copy_assign zeroes pattern large_fixture large_fixture large_world =
              (Returns (), x', w') \<and> contains x' w' ?s \<and> fst (operator_call x' 3 w') = Returns 13"
    by blast
  with h fc v show ?thesis by blast
qed

text \<open>
  Claim C10. A move out of a boxed container leaves the source's storage cells as
  they were: the source still holds the pointer, which is non-null, equals the
  destination's, and points to the block the destination now owns. The source is
  empty all the same: destroying it frees nothing, destroying the destination then
  frees the block once, and destroying or invoking the source after that, when its
  pointer dangles, still touches nothing. In general an empty container \<open>e\<close> is
  treated as empty whatever bytes \<open>s\<close> its storage holds: the emptiness test is false,
  invocation throws and changes nothing, copy and move construction from it give a
  default-constructed container, destruction does nothing, and a swap with a
  container \<open>x\<close> in either direction hands over what \<open>x\<close> held and leaves \<open>x\<close>
  empty, with the heap and the deallocation count untouched.
\<close>

theorem moved_from_storage_is_never_used:
  "(holds src w T v \<and> \<not> In_place_callable T \<longrightarrow>
      (\<exists>dst src'. move_function junk src w = (Returns dst, src', w) \<and>
         storage (any_callable_field src') = storage (any_callable_field src) \<and>
         mem1 (storage (any_callable_field src')) \<noteq> 0 \<and>
         mem1 (storage (any_callable_field dst)) = mem1 (storage (any_callable_field src')) \<and>
         heap w (mem1 (storage (any_callable_field src'))) = Some v \<and>
         is_empty src' \<and>
         destructor src' w = (Returns (), w) \<and>
         (\<exists>w2. destructor dst w = (Returns (), w2) \<and> deletes w2 = deletes w + 1 \<and>
            heap w2 (mem1 (storage (any_callable_field src'))) = None \<and>
            destructor src' w2 = (Returns (), w2) \<and>
            operator_call src' args w2 =
              (Throws (Runtime_error ''bad function call''), src', w2)))) \<and>
   (is_empty e \<and> contains x w sx \<and> movable sx \<longrightarrow>
      \<not> operator_bool (with_storage e s) \<and>
      operator_call (with_storage e s) args w =
        (Throws (Runtime_error ''bad function call''), with_storage e s, w) \<and>
      copy_function junk (with_storage e s) w = (Returns (default_function junk), w) \<and>
      move_function junk (with_storage e s) w =
        (Returns (default_function junk), with_storage e s, w) \<and>
      destructor (with_storage e s) w = (Returns (), w) \<and>
      (\<exists>x' e' w'. function_swap junk x (with_storage e s) w = (Returns (), x', e', w') \<and>
         is_empty x' \<and> contains e' w' sx \<and> heap w' = heap w \<and> deletes w' = deletes w) \<and>
      (\<exists>x' e' w'. function_swap junk (with_storage e s) x w = (Returns (), e', x', w') \<and>
         is_empty x' \<and> contains e' w' sx \<and> heap w' = heap w \<and> deletes w' = deletes w))"
proof (intro conjI impI)
  assume "holds src w T v \<and> \<not> In_place_callable T"
  then have h: "holds src w T v" and b: "\<not> In_place_callable T" by simp_all
  then have r: "relocatable T v" by (simp add: relocatable_def)
  let ?src' = "src\<lparr>any_callable_field := (any_callable_field src)\<lparr>operations := None\<rparr>,
                  invoker_field := None\<rparr>"
  from move_function_occupied[OF h r, of junk] b obtain dst where
    m: "move_function junk src w = (Returns dst, ?src', w)"
    and hd: "holds dst w T v"
    and st: "storage (any_callable_field dst) = storage (any_callable_field src)"
    by auto
  have e: "operations (any_callable_field ?src') = None" by simp
  let ?p = "mem1 (storage (any_callable_field src))"
  let ?w2 = "w\<lparr>heap := (heap w)(?p := None), deletes := deletes w + 1,
                destroyed := destroyed w + 1\<rparr>"
  have d: "destructor dst w = (Returns (), ?w2)"
    using destructor_boxed[OF hd b] st by simp
  from h b have p: "?p \<noteq> 0" "heap w ?p = Some v" by (simp_all add: holds_def)
  show "\<exists>dst src'. move_function junk src w = (Returns dst, src', w) \<and>
         storage (any_callable_field src') = storage (any_callable_field src) \<and>
         mem1 (storage (any_callable_field src')) \<noteq> 0 \<and>
         mem1 (storage (any_callable_field dst)) = mem1 (storage (any_callable_field src')) \<and>
         heap w (mem1 (storage (any_callable_field src'))) = Some v \<and>
         is_empty src' \<and>
         destructor src' w = (Returns (), w) \<and>
         (\<exists>w2. destructor dst w = (Returns (), w2) \<and> deletes w2 = deletes w + 1 \<and>
            heap w2 (mem1 (storage (any_callable_field src'))) = None \<and>
            destructor src' w2 = (Returns (), w2) \<and>
            operator_call src' args w2 =
              (Throws (Runtime_error ''bad function call''), src', w2))"
    apply (rule exI[of _ dst], rule exI[of _ ?src'])
    using m st p d destructor_empty[OF e] operator_call_empty[OF e]
    by (simp add: is_empty_def)
next
  assume a: "is_empty e \<and> contains x w sx \<and> movable sx"
  then have o: "operations (any_callable_field (with_storage e s)) = None"
    by (simp add: is_empty_def with_storage_def)
  from a have ce: "contains (with_storage e s) w None"
    by (simp add: is_empty_def with_storage_def)
  from a have cx: "contains x w sx" and mx: "movable sx" by simp_all
  show "\<not> operator_bool (with_storage e s)" using o by (simp add: operator_bool_def)
  show "operator_call (with_storage e s) args w =
        (Throws (Runtime_error ''bad function call''), with_storage e s, w)"
    by (rule operator_call_empty[OF o])
  show "copy_function junk (with_storage e s) w = (Returns (default_function junk), w)"
    by (rule copy_function_empty[OF o])
  show "move_function junk (with_storage e s) w =
        (Returns (default_function junk), with_storage e s, w)"
    by (rule move_function_empty[OF o])
  show "destructor (with_storage e s) w = (Returns (), w)"
    by (rule destructor_empty[OF o])
  from function_swap_exchanges[OF cx ce mx, of junk]
  show "\<exists>x' e' w'. function_swap junk x (with_storage e s) w = (Returns (), x', e', w') \<and>
         is_empty x' \<and> contains e' w' sx \<and> heap w' = heap w \<and> deletes w' = deletes w"
    by auto
  from function_swap_exchanges[OF ce cx _ mx, of junk]
  show "\<exists>x' e' w'. function_swap junk (with_storage e s) x w = (Returns (), e', x', w') \<and>
         is_empty x' \<and> contains e' w' sx \<and> heap w' = heap w \<and> deletes w' = deletes w"
    by auto
qed

theorem moved_from_storage_is_never_used_witness:
  "holds large_fixture large_world large_closure [1, 2, 3, 4] \<and>
   \<not> In_place_callable large_closure \<and>
   is_empty empty_fixture \<and>
   contains small_fixture large_world (Some (small_closure, [2])) \<and>
   movable (Some (small_closure, [2])) \<and>
   (\<exists>dst src'. move_function zeroes large_fixture large_world = (Returns dst, src', large_world) \<and>
      mem1 (storage (any_callable_field src')) = 1 \<and>
      heap large_world 1 = Some [1, 2, 3, 4] \<and>
      destructor src' large_world = (Returns (), large_world) \<and>
      (\<exists>w2. destructor dst large_world = (Returns (), w2) \<and> deletes w2 = 1 \<and>
         destructor src' w2 = (Returns (), w2))) \<and>
   operator_call (with_storage empty_fixture pattern) 3 large_world =
     (Throws (Runtime_error ''bad function call''), with_storage empty_fixture pattern, large_world) \<and>
   destructor (with_storage empty_fixture pattern) large_world = (Returns (), large_world)"
proof -
  have h1: "holds large_fixture large_world large_closure [1, 2, 3, 4] \<and>
      \<not> In_place_callable large_closure"
    using large_fixture_holds by (simp add: layout_defs large_closure_def)
  have h2: "is_empty empty_fixture \<and>
      contains small_fixture large_world (Some (small_closure, [2])) \<and>
      movable (Some (small_closure, [2]))"
    using small_closure_relocatable[of 2]
    by (simp add: is_empty_def empty_fixture_def default_function_def holds_def layout_defs
        small_closure_def small_fixture_def)
  note t = moved_from_storage_is_never_used[of large_fixture large_world large_closure
      "[1, 2, 3, 4]" zeroes 3 empty_fixture small_fixture "Some (small_closure, [2])" pattern]
  have e: "mem1 (storage (any_callable_field large_fixture)) = 1" "deletes large_world = 0"
    by (simp_all add: large_fixture_def large_world_def)
  from t[THEN conjunct1, THEN mp, OF h1] obtain dst src' w2 where
    "move_function zeroes large_fixture large_world = (Returns dst, src', large_world)"
    "storage (any_callable_field src') = storage (any_callable_field large_fixture)"
    "heap large_world (mem1 (storage (any_callable_field src'))) = Some [1, 2, 3, 4]"
    "destructor src' large_world = (Returns (), large_world)"
    "destructor dst large_world = (Returns (), w2)" "deletes w2 = deletes large_world + 1"
    "destructor src' w2 = (Returns (), w2)"
    by (elim exE conjE) (rule that; assumption)
  with e have m: "\<exists>dst src'. move_function zeroes large_fixture large_world =
        (Returns dst, src', large_world) \<and>
      mem1 (storage (any_callable_field src')) = 1 \<and>
      heap large_world 1 = Some [1, 2, 3, 4] \<and>
      destructor src' large_world = (Returns (), large_world) \<and>
      (\<exists>w2. destructor dst large_world = (Returns (), w2) \<and> deletes w2 = 1 \<and>
         destructor src' w2 = (Returns (), w2))"
    by auto
  from t[THEN conjunct2, THEN mp, OF h2] h1 h2 m show ?thesis by simp
qed

text \<open>
  Claim C5 (amended). For a callable type that qualifies for inline mode (by size,
  alignment and a \<^verbatim>\<open>noexcept\<close> move constructor), construction from a callable never
  allocates: however it ends, the heap and the allocation counts are as before, and
  when the callable's constructor returns, the object is placed in the container's
  storage cells. For a type that does not qualify, a construction that returns has
  allocated exactly one block and freed none, and it does return when the callable's
  constructor returns and a block is free. That block is released exactly once:
  by the container's destructor; or, after a move construction (which neither
  allocates nor frees), by the destructor of the container that took the block over,
  while destroying the moved-from container, before or after, frees nothing.
\<close>

theorem construction_allocates_only_when_boxed:
  "(In_place_callable T \<longrightarrow>
      (\<exists>r w1. function_from_callable junk T c w = (r, w1) \<and>
         heap w1 = heap w \<and> news w1 = news w \<and> deletes w1 = deletes w \<and>
         next_block w1 = next_block w \<and>
         (\<forall>u. construct T c = Inr u \<longrightarrow>
            (\<exists>f. r = Returns f \<and> operations (any_callable_field f) = Some T \<and>
               storage (any_callable_field f) = placement T u junk)))) \<and>
   (\<not> In_place_callable T \<longrightarrow>
      (\<forall>f w1. function_from_callable junk T c w = (Returns f, w1) \<longrightarrow>
         news w1 = news w + 1 \<and> deletes w1 = deletes w \<and>
         heap w (mem1 (storage (any_callable_field f))) = None \<and>
         heap w1 (mem1 (storage (any_callable_field f))) \<noteq> None)) \<and>
   (\<not> In_place_callable T \<and> construct T c = Inr v \<and>
    next_block w \<noteq> 0 \<and> heap w (next_block w) = None \<longrightarrow>
      (\<exists>f w1. function_from_callable junk T c w = (Returns f, w1) \<and>
         holds f w1 T v \<and> news w1 = news w + 1 \<and> deletes w1 = deletes w \<and>
         (\<exists>w2. destructor f w1 = (Returns (), w2) \<and>
            news w2 = news w + 1 \<and> deletes w2 = deletes w + 1 \<and> heap w2 = heap w) \<and>
         (\<exists>g f'. move_function junk' f w1 = (Returns g, f', w1) \<and>
            destructor f' w1 = (Returns (), w1) \<and>
            (\<exists>w2. destructor g w1 = (Returns (), w2) \<and>
               news w2 = news w + 1 \<and> deletes w2 = deletes w + 1 \<and> heap w2 = heap w \<and>
               destructor f' w2 = (Returns (), w2)))))"
proof (intro conjI impI)
  assume i: "In_place_callable T"
  show "\<exists>r w1. function_from_callable junk T c w = (r, w1) \<and>
         heap w1 = heap w \<and> news w1 = news w \<and> deletes w1 = deletes w \<and>
         next_block w1 = next_block w \<and>
         (\<forall>u. construct T c = Inr u \<longrightarrow>
            (\<exists>f. r = Returns f \<and> operations (any_callable_field f) = Some T \<and>
               storage (any_callable_field f) = placement T u junk))"
    using function_from_callable_inline[OF i, of junk c w]
    by (cases "construct T c") simp_all
next
  assume b: "\<not> In_place_callable T"
  show "\<forall>f w1. function_from_callable junk T c w = (Returns f, w1) \<longrightarrow>
         news w1 = news w + 1 \<and> deletes w1 = deletes w \<and>
         heap w (mem1 (storage (any_callable_field f))) = None \<and>
         heap w1 (mem1 (storage (any_callable_field f))) \<noteq> None"
    using function_from_callable_boxed[OF b, of junk c w]
    by (cases "construct T c") (auto split: if_splits)
next
  assume "\<not> In_place_callable T \<and> construct T c = Inr v \<and>
    next_block w \<noteq> 0 \<and> heap w (next_block w) = None"
  then have b: "\<not> In_place_callable T" and k: "construct T c = Inr v"
    and a: "next_block w \<noteq> 0" "heap w (next_block w) = None" by simp_all
  let ?f = "\<lparr>any_callable_field = \<lparr>storage = junk\<lparr>mem1 := next_block w\<rparr>, operations = Some T\<rparr>,
             invoker_field = Some T\<rparr>"
  let ?w1 = "constructed c (w\<lparr>heap := (heap w)(next_block w \<mapsto> v),
               next_block := next_block w + 1, news := news w + 1\<rparr>)"
  have ff: "function_from_callable junk T c w = (Returns ?f, ?w1)"
    using function_from_callable_boxed[OF b, of junk c w] k a by simp
  have hf: "holds ?f ?w1 T v" using b a by (simp add: holds_def)
  have r: "relocatable T v" using b by (simp add: relocatable_def)
  have restored: "(heap ?w1)(next_block w := None) = heap w"
    using a(2) by (auto simp: fun_eq_iff)
  from destructor_boxed[OF hf b] restored
  have d: "\<exists>w2. destructor ?f ?w1 = (Returns (), w2) \<and>
            news w2 = news w + 1 \<and> deletes w2 = deletes w + 1 \<and> heap w2 = heap w"
    by simp
  let ?f' = "?f\<lparr>any_callable_field := (any_callable_field ?f)\<lparr>operations := None\<rparr>,
               invoker_field := None\<rparr>"
  from move_function_occupied[OF hf r, of junk'] b obtain g where
    m: "move_function junk' ?f ?w1 = (Returns g, ?f', ?w1)" and hg: "holds g ?w1 T v"
    and sg: "storage (any_callable_field g) = storage (any_callable_field ?f)"
    by auto
  have e: "operations (any_callable_field ?f') = None" by simp
  have de: "destructor ?f' w' = (Returns (), w')" for w'
    by (rule destructor_empty[OF e])
  from destructor_boxed[OF hg b] restored sg
  have dg: "\<exists>w2. destructor g ?w1 = (Returns (), w2) \<and>
               news w2 = news w + 1 \<and> deletes w2 = deletes w + 1 \<and> heap w2 = heap w \<and>
               destructor ?f' w2 = (Returns (), w2)"
    using de by simp
  have mv: "\<exists>g f'. move_function junk' ?f ?w1 = (Returns g, f', ?w1) \<and>
            destructor f' ?w1 = (Returns (), ?w1) \<and>
            (\<exists>w2. destructor g ?w1 = (Returns (), w2) \<and>
               news w2 = news w + 1 \<and> deletes w2 = deletes w + 1 \<and> heap w2 = heap w \<and>
               destructor f' w2 = (Returns (), w2))"
    apply (rule exI[of _ g], rule exI[of _ ?f'])
    using m dg de by simp
  show "\<exists>f w1. function_from_callable junk T c w = (Returns f, w1) \<and>
         holds f w1 T v \<and> news w1 = news w + 1 \<and> deletes w1 = deletes w \<and>
         (\<exists>w2. destructor f w1 = (Returns (), w2) \<and>
            news w2 = news w + 1 \<and> deletes w2 = deletes w + 1 \<and> heap w2 = heap w) \<and>
         (\<exists>g f'. move_function junk' f w1 = (Returns g, f', w1) \<and>
            destructor f' w1 = (Returns (), w1) \<and>
            (\<exists>w2. destructor g w1 = (Returns (), w2) \<and>
               news w2 = news w + 1 \<and> deletes w2 = deletes w + 1 \<and> heap w2 = heap w \<and>
               destructor f' w2 = (Returns (), w2)))"
    apply (rule exI[of _ ?f], rule exI[of _ ?w1])
    using ff hf d mv by simp
qed

theorem construction_allocates_only_when_boxed_witness:
  "In_place_callable small_closure \<and>
   (\<exists>r w1. function_from_callable pattern small_closure (Lvalue [2]) fresh_world = (r, w1) \<and>
      heap w1 = heap fresh_world \<and> news w1 = 0 \<and> deletes w1 = 0) \<and>
   \<not> In_place_callable large_closure \<and>
   construct large_closure (Rvalue [1, 2, 3, 4]) = Inr [1, 2, 3, 4] \<and>
   next_block fresh_world \<noteq> 0 \<and> heap fresh_world (next_block fresh_world) = None \<and>
   (\<exists>f w1. function_from_callable pattern large_closure (Rvalue [1, 2, 3, 4]) fresh_world =
             (Returns f, w1) \<and>
      news w1 = 1 \<and> deletes w1 = 0 \<and>
      (\<exists>w2. destructor f w1 = (Returns (), w2) \<and> news w2 = 1 \<and> deletes w2 = 1 \<and>
         heap w2 = heap fresh_world) \<and>
      (\<exists>g f'. move_function zeroes f w1 = (Returns g, f', w1) \<and>
         destructor f' w1 = (Returns (), w1) \<and>
         (\<exists>w2. destructor g w1 = (Returns (), w2) \<and> news w2 = 1 \<and> deletes w2 = 1 \<and>
            destructor f' w2 = (Returns (), w2))))"
proof -
  have hs: "In_place_callable small_closure"
    by (simp add: layout_defs small_closure_def)
  have hl: "\<not> In_place_callable large_closure \<and>
      construct large_closure (Rvalue [1, 2, 3, 4]) = Inr [1, 2, 3, 4] \<and>
      next_block fresh_world \<noteq> 0 \<and> heap fresh_world (next_block fresh_world) = None"
    by (simp add: layout_defs large_closure_def fresh_world_def)
  have n: "news fresh_world = 0" "deletes fresh_world = 0" by (simp_all add: fresh_world_def)
  from construction_allocates_only_when_boxed[of small_closure pattern "Lvalue [2]" fresh_world
      "[2]" zeroes, THEN conjunct1, THEN mp, OF hs] n
  have a: "\<exists>r w1. function_from_callable pattern small_closure (Lvalue [2]) fresh_world = (r, w1) \<and>
      heap w1 = heap fresh_world \<and> news w1 = 0 \<and> deletes w1 = 0"
    by auto
  from construction_allocates_only_when_boxed[of large_closure pattern "Rvalue [1, 2, 3, 4]"
      fresh_world "[1, 2, 3, 4]" zeroes, THEN conjunct2, THEN conjunct2, THEN mp, OF hl]
  obtain f w1 w2 g f' w3 where o:
    "function_from_callable pattern large_closure (Rvalue [1, 2, 3, 4]) fresh_world = (Returns f, w1)"
    "news w1 = news fresh_world + 1" "deletes w1 = deletes fresh_world"
    "destructor f w1 = (Returns (), w2)" "news w2 = news fresh_world + 1"
    "deletes w2 = deletes fresh_world + 1" "heap w2 = heap fresh_world"
    "move_function zeroes f w1 = (Returns g, f', w1)" "destructor f' w1 = (Returns (), w1)"
    "destructor g w1 = (Returns (), w3)" "news w3 = news fresh_world + 1"
    "deletes w3 = deletes fresh_world + 1" "destructor f' w3 = (Returns (), w3)"
    by (elim exE conjE) (rule that; assumption)
  have b1: "\<exists>w2. destructor f w1 = (Returns (), w2) \<and> news w2 = 1 \<and> deletes w2 = 1 \<and>
         heap w2 = heap fresh_world"
    using o n by simp
  have b2: "\<exists>w2. destructor g w1 = (Returns (), w2) \<and> news w2 = 1 \<and> deletes w2 = 1 \<and>
            destructor f' w2 = (Returns (), w2)"
    using o n by simp
  have b3: "\<exists>g f'. move_function zeroes f w1 = (Returns g, f', w1) \<and>
         destructor f' w1 = (Returns (), w1) \<and>
         (\<exists>w2. destructor g w1 = (Returns (), w2) \<and> news w2 = 1 \<and> deletes w2 = 1 \<and>
            destructor f' w2 = (Returns (), w2))"
    apply (rule exI[of _ g], rule exI[of _ f'])
    using o(8,9) b2 by simp
  have b: "\<exists>f w1. function_from_callable pattern large_closure (Rvalue [1, 2, 3, 4]) fresh_world =
             (Returns f, w1) \<and>
      news w1 = 1 \<and> deletes w1 = 0 \<and>
      (\<exists>w2. destructor f w1 = (Returns (), w2) \<and> news w2 = 1 \<and> deletes w2 = 1 \<and>
         heap w2 = heap fresh_world) \<and>
      (\<exists>g f'. move_function zeroes f w1 = (Returns g, f', w1) \<and>
         destructor f' w1 = (Returns (), w1) \<and>
         (\<exists>w2. destructor g w1 = (Returns (), w2) \<and> news w2 = 1 \<and> deletes w2 = 1 \<and>
            destructor f' w2 = (Returns (), w2)))"
    apply (rule exI[of _ f], rule exI[of _ w1])
    using o(1,2,3) n b1 b3 by simp
  from hs hl a b show ?thesis by (intro conjI) simp_all
qed

text \<open>
  C5 as stated measures the threshold by size. \<open>guarded_closure\<close> is eight bytes,
  within the sixteen of the storage, and aligned to fit; its move constructor is not
  \<^verbatim>\<open>noexcept\<close>, so the container boxes it: constructing from it allocates.
\<close>

theorem small_callable_is_boxed_when_its_move_may_throw:
  "sizeof guarded_closure \<le> sizeof_Callable_storage \<and>
   alignment_of_Callable_storage mod alignment_of guarded_closure = 0 \<and>
   news fresh_world = 0 \<and>
   news (snd (function_from_callable zeroes guarded_closure (Lvalue [2]) fresh_world)) = 1 \<and>
   fst (function_from_callable zeroes guarded_closure (Lvalue [2]) fresh_world) =
     Returns \<lparr>any_callable_field =
                \<lparr>storage = \<lparr>mem1 = 1, mem2 = 0\<rparr>, operations = Some guarded_closure\<rparr>,
              invoker_field = Some guarded_closure\<rparr> \<and>
   heap (snd (function_from_callable zeroes guarded_closure (Lvalue [2]) fresh_world)) 1 = Some [2]"
proof -
  have b: "\<not> In_place_callable guarded_closure"
    by (simp add: layout_defs guarded_closure_def small_closure_def)
  have c: "construct guarded_closure (Lvalue [2]) = Inr [2]"
    by (simp add: guarded_closure_def small_closure_def)
  show ?thesis
    by (simp add: function_from_callable_boxed[OF b] c)
      (simp add: fresh_world_def zeroes_def guarded_closure_def small_closure_def layout_defs)
qed

text \<open>
  Claim C6. A concrete callable type qualifies for inline storage exactly when its
  size is at most that of the storage region (two 64-bit words, sixteen bytes), its
  alignment divides the region's, and it is nothrow-move-constructible. A type
  that qualifies is handled by the in-place manager; a type that fails any one of
  the three conditions is handled by the manager for large callables, and a
  container built from it keeps the callable in a heap block of its own.
\<close>

theorem inline_qualification:
  "(In_place_callable T \<longleftrightarrow>
      sizeof T \<le> sizeof_Callable_storage \<and>
      alignment_of T dvd alignment_of_Callable_storage \<and>
      is_nothrow_move_constructible T) \<and>
   sizeof_Callable_storage = 2 * 8 \<and>
   (In_place_callable T \<longrightarrow>
      manager_store T = in_place_store T \<and> manager_invoke T = in_place_invoke T \<and>
      manager_destroy T = in_place_destroy T \<and>
      manager_move_and_destroy T = in_place_move_and_destroy T) \<and>
   (sizeof_Callable_storage < sizeof T \<or>
    \<not> alignment_of T dvd alignment_of_Callable_storage \<or>
    \<not> is_nothrow_move_constructible T \<longrightarrow>
      manager_store T = large_store T \<and> manager_invoke T = large_invoke T \<and>
      manager_destroy T = large_destroy \<and>
      manager_move_and_destroy T = large_move_and_destroy \<and>
      (\<forall>junk c w f w1. function_from_callable junk T c w = (Returns f, w1) \<longrightarrow>
         operations (any_callable_field f) = Some T \<and>
         mem1 (storage (any_callable_field f)) \<noteq> 0 \<and>
         heap w (mem1 (storage (any_callable_field f))) = None \<and>
         (\<exists>v. construct T c = Inr v \<and> heap w1 (mem1 (storage (any_callable_field f))) = Some v)))"
proof (intro conjI impI)
  show q: "In_place_callable T \<longleftrightarrow>
      sizeof T \<le> sizeof_Callable_storage \<and>
      alignment_of T dvd alignment_of_Callable_storage \<and>
      is_nothrow_move_constructible T"
    by (simp add: In_place_callable_def mod_eq_0_iff_dvd)
  show "sizeof_Callable_storage = 2 * 8" by (simp add: sizeof_Callable_storage_def)
  {
    assume i: "In_place_callable T"
    show "manager_store T = in_place_store T" "manager_invoke T = in_place_invoke T"
      "manager_destroy T = in_place_destroy T"
      "manager_move_and_destroy T = in_place_move_and_destroy T"
      using i by (simp_all add: fun_eq_iff manager_store_def manager_invoke_def
          manager_destroy_def manager_move_and_destroy_def)
  }
  {
    assume "sizeof_Callable_storage < sizeof T \<or>
      \<not> alignment_of T dvd alignment_of_Callable_storage \<or>
      \<not> is_nothrow_move_constructible T"
    with q have b: "\<not> In_place_callable T" by auto
    show "manager_store T = large_store T" "manager_invoke T = large_invoke T"
      "manager_destroy T = large_destroy"
      "manager_move_and_destroy T = large_move_and_destroy"
      using b by (simp_all add: fun_eq_iff manager_store_def manager_invoke_def
          manager_destroy_def manager_move_and_destroy_def)
    show "\<forall>junk c w f w1. function_from_callable junk T c w = (Returns f, w1) \<longrightarrow>
         operations (any_callable_field f) = Some T \<and>
         mem1 (storage (any_callable_field f)) \<noteq> 0 \<and>
         heap w (mem1 (storage (any_callable_field f))) = None \<and>
         (\<exists>v. construct T c = Inr v \<and> heap w1 (mem1 (storage (any_callable_field f))) = Some v)"
    proof (intro allI impI)
      fix junk c w f w1
      assume "function_from_callable junk T c w = (Returns f, w1)"
      with function_from_callable_boxed[OF b, of junk c w]
      show "operations (any_callable_field f) = Some T \<and>
         mem1 (storage (any_callable_field f)) \<noteq> 0 \<and>
         heap w (mem1 (storage (any_callable_field f))) = None \<and>
         (\<exists>v. construct T c = Inr v \<and> heap w1 (mem1 (storage (any_callable_field f))) = Some v)"
        by (cases "construct T c") (auto split: if_splits)
    qed
  }
qed

theorem inline_qualification_witness:
  "In_place_callable small_closure \<and>
   manager_store small_closure = in_place_store small_closure \<and>
   \<not> is_nothrow_move_constructible guarded_closure \<and>
   \<not> In_place_callable guarded_closure \<and>
   manager_store guarded_closure = large_store guarded_closure \<and>
   sizeof_Callable_storage < sizeof large_closure \<and>
   manager_store large_closure = large_store large_closure \<and>
   function_from_callable pattern large_closure (Rvalue [1, 2, 3, 4]) fresh_world =
     (Returns large_fixture, large_world) \<and>
   mem1 (storage (any_callable_field large_fixture)) \<noteq> 0 \<and>
   heap fresh_world (mem1 (storage (any_callable_field large_fixture))) = None"
proof -
  have s: "In_place_callable small_closure" by (simp add: layout_defs small_closure_def)
  have g: "\<not> is_nothrow_move_constructible guarded_closure"
    by (simp add: guarded_closure_def)
  have l: "sizeof_Callable_storage < sizeof large_closure"
    by (simp add: layout_defs large_closure_def)
  note ts = inline_qualification[of small_closure]
  note tg = inline_qualification[of guarded_closure]
  note tl = inline_qualification[of large_closure]
  from ts s have 1: "manager_store small_closure = in_place_store small_closure" by blast
  from tg g have 2: "\<not> In_place_callable guarded_closure"
    "manager_store guarded_closure = large_store guarded_closure" by blast+
  from tl l have 3: "manager_store large_closure = large_store large_closure" by blast
  from tl l large_fixture_built
  have 4: "mem1 (storage (any_callable_field large_fixture)) \<noteq> 0 \<and>
     heap fresh_world (mem1 (storage (any_callable_field large_fixture))) = None"
    by blast
  from s g l 1 2 3 4 large_fixture_built show ?thesis by blast
qed

text \<open>
  Claim C4, at the failing input. The container \<open>small_fixture\<close> holds the closure
  \<open>[2]\<close>. Assigning to it the lvalue callable \<open>[1, 2, 3, 4]\<close> of \<open>uncopyable_closure\<close>,
  whose copy constructor throws, runs \<open>operator=(Callable&&)\<close>: the old callable is
  destroyed first, then \<open>set\<close> throws, and the container is left empty, its prior
  value lost. Assigning a container that holds the same callable runs
  \<open>operator=(function)\<close>: the copy for the parameter throws before the body starts,
  and the target still is \<open>small_fixture\<close>.
\<close>

theorem raw_callable_assignment_loses_the_prior_value:
  "holds small_fixture large_world small_closure [2] \<and>
   fst (operator_call small_fixture 3 large_world) = Returns 5 \<and>
   operator_assign_callable uncopyable_closure (Lvalue [1, 2, 3, 4]) small_fixture large_world =
     (Throws Bad_alloc,
      small_fixture\<lparr>any_callable_field := (any_callable_field small_fixture)\<lparr>operations := None\<rparr>\<rparr>,
      large_world\<lparr>destroyed := 1, news := 2, deletes := 1\<rparr>) \<and>
   \<not> operator_bool
       (small_fixture\<lparr>any_callable_field := (any_callable_field small_fixture)\<lparr>operations := None\<rparr>\<rparr>) \<and>
   fst (operator_call
         (small_fixture\<lparr>any_callable_field := (any_callable_field small_fixture)\<lparr>operations := None\<rparr>\<rparr>)
         3 (large_world\<lparr>destroyed := 1, news := 2, deletes := 1\<rparr>)) =
     Throws (Runtime_error ''bad function call'') \<and>
   holds uncopyable_fixture large_world uncopyable_closure [1, 2, 3, 4] \<and>
   copy_assign zeroes zeroes small_fixture uncopyable_fixture large_world =
     (Throws Bad_alloc, small_fixture, large_world\<lparr>news := 2, deletes := 1\<rparr>)"
proof -
  have b: "operator_bool small_fixture"
    by (simp add: operator_bool_def small_fixture_def)
  have a: "operator_assign_callable uncopyable_closure (Lvalue [1, 2, 3, 4]) small_fixture large_world =
     (Throws Bad_alloc,
      small_fixture\<lparr>any_callable_field := (any_callable_field small_fixture)\<lparr>operations := None\<rparr>\<rparr>,
      large_world\<lparr>destroyed := 1, news := 2, deletes := 1\<rparr>)"
    by (simp add: operator_assign_callable_def b function_unset_small_fixture
        function_set_uncopyable_throws)
  have c: "copy_assign zeroes zeroes small_fixture uncopyable_fixture large_world =
     (Throws Bad_alloc, small_fixture, large_world\<lparr>news := 2, deletes := 1\<rparr>)"
    by (simp add: copy_assign_def
        copy_function_boxed[OF uncopyable_fixture_holds uncopyable_closure_is_boxed])
      (simp add: large_world_def uncopyable_closure_def)
  have v: "fst (operator_call small_fixture 3 large_world) = Returns 5"
    using operator_call_occupied[OF small_fixture_in_large_world] by (simp add: small_closure_def)
  show ?thesis
    using a c v small_fixture_in_large_world uncopyable_fixture_holds
    by (simp add: operator_bool_def operator_call_empty)
qed

text \<open>
  Claim C7, at the same failing input. \<open>unset\<close> nulls the operations pointer and
  leaves the invoker; when the \<open>set\<close> that follows it in \<open>operator=(Callable&&)\<close>
  throws, the container comes out of the assignment with a null table and the
  invoker of the destroyed callable's type.
\<close>

theorem failed_raw_assignment_leaves_a_stale_invoker:
  "holds small_fixture large_world small_closure [2] \<and>
   fst (operator_assign_callable uncopyable_closure (Lvalue [1, 2, 3, 4]) small_fixture large_world) =
     Throws Bad_alloc \<and>
   operations (any_callable_field (fst (snd
     (operator_assign_callable uncopyable_closure (Lvalue [1, 2, 3, 4]) small_fixture large_world)))) =
     None \<and>
   invoker_field (fst (snd
     (operator_assign_callable uncopyable_closure (Lvalue [1, 2, 3, 4]) small_fixture large_world))) =
     Some small_closure \<and>
   \<not> is_empty (fst (snd
     (operator_assign_callable uncopyable_closure (Lvalue [1, 2, 3, 4]) small_fixture large_world))) \<and>
   invoker_field (fst (snd (function_unset small_fixture large_world))) = Some small_closure \<and>
   operations (any_callable_field (fst (snd (function_unset small_fixture large_world)))) = None"
proof -
  have b: "operator_bool small_fixture"
    by (simp add: operator_bool_def small_fixture_def)
  have a: "operator_assign_callable uncopyable_closure (Lvalue [1, 2, 3, 4]) small_fixture large_world =
     (Throws Bad_alloc,
      small_fixture\<lparr>any_callable_field := (any_callable_field small_fixture)\<lparr>operations := None\<rparr>\<rparr>,
      large_world\<lparr>destroyed := 1, news := 2, deletes := 1\<rparr>)"
    by (simp add: operator_assign_callable_def b function_unset_small_fixture
        function_set_uncopyable_throws)
  have i: "invoker_field small_fixture = Some small_closure" by (simp add: small_fixture_def)
  show ?thesis
    using small_fixture_in_large_world
    by (simp add: a function_unset_small_fixture is_empty_def i)
qed

end
